theory Spec2Isabelle
  imports Main
begin

section \<open>Request/reply over Pub/Sub: the data model\<close>

text \<open>
  The development covers three Go sources: the Pub/Sub request/reply backend of package
  \<open>cqrs\<close> (\<open>ListenForReply\<close>, \<open>OnCommandProcessed\<close>, \<open>handleNotifyMsg\<close>), the
  caller-facing \<open>SendWithReply\<close> of package \<open>requestreply\<close>, and the handler wrappers
  \<open>NewCommandHandler\<close> / \<open>NewCommandHandlerWithResult\<close>.

  Every effect of the code on its collaborators (logger, subscriber, publisher, marshaler,
  context cancel functions, message acknowledgement) is appended to a list of calls, in
  program order. The collaborators themselves are parameters.
\<close>

subsection \<open>Contexts and errors\<close>

text \<open>
  A \<open>context.Context\<close> is either one handed in by the caller (\<open>Ctx n\<close>) or derived from a
  parent. \<open>context.WithTimeout(parent, d)\<close> evaluated at clock reading \<open>t\<close> is the child
  with deadline \<open>t + d\<close>.
\<close>

datatype "context" = Ctx nat | WithCancel "context" | WithDeadline "context" int

definition WithTimeout :: "context \<Rightarrow> int \<Rightarrow> int \<Rightarrow> context" where
  "WithTimeout parent d t = WithDeadline parent (t + d)"

text \<open>
  Go \<open>error\<close> values: \<open>errors.New\<close> / \<open>fmt.Errorf\<close> with a fixed text, \<open>errors.Wrap\<close>,
  and the two errors \<open>ctx.Err()\<close> can return.
\<close>

datatype error = New string | Wrap error string | Canceled | DeadlineExceeded

fun Error_of :: "error \<Rightarrow> string" where
  "Error_of (New s) = s"
| "Error_of (Wrap e s) = s @ '': '' @ Error_of e"
| "Error_of Canceled = ''context canceled''"
| "Error_of DeadlineExceeded = ''context deadline exceeded''"

subsection \<open>Messages\<close>

text \<open>
  \<open>message.Message\<close>: a UUID, a string-keyed metadata map, a payload and a context.
  \<open>Metadata.Get\<close> is Go's map lookup: a missing key reads as the empty string.
\<close>

record Message =
  UUID :: string
  Metadata :: "string \<rightharpoonup> string"
  Payload :: string
  MsgContext :: "context"

definition Metadata_Get :: "Message \<Rightarrow> string \<Rightarrow> string" where
  "Metadata_Get msg k = (case Metadata msg k of None \<Rightarrow> [] | Some v \<Rightarrow> v)"

definition Metadata_Set :: "Message \<Rightarrow> string \<Rightarrow> string \<Rightarrow> Message" where
  "Metadata_Set msg k v = msg\<lparr>Metadata := (Metadata msg)(k \<mapsto> v)\<rparr>"

definition SetContext :: "Message \<Rightarrow> context \<Rightarrow> Message" where
  "SetContext msg c = msg\<lparr>MsgContext := c\<rparr>"

record RequestReplyNotification =
  Error :: string
  HasError :: bool

text \<open>
  The two error kinds the listener puts into a reply:
  \<open>ReplyTimeoutError{Duration, Err}\<close> and \<open>CommandHandlerError{Err}\<close>.
\<close>

datatype reply_error = ReplyTimeoutError int error | CommandHandlerError error

record CommandReply =
  ReplyMsg :: "Message option"
  Err :: "reply_error option"

subsection \<open>Configuration and the trace of calls\<close>

text \<open>
  \<open>PubSubRequestReplySubscriberConstructorParams\<close> and
  \<open>PubSubRequestReplyTopicGeneratorParams\<close> have the same three fields; one record
  stands for both.
\<close>

record 'c PubSubRequestReplyParams =
  CommandUUID :: string
  CommandMessage :: Message
  Command :: "'c"

datatype 'c call =
    SubscriberConstructorCall "'c PubSubRequestReplyParams"
  | GenerateReplyNotificationTopicCall "'c PubSubRequestReplyParams"
  | SubscribeCall "context" string
  | CancelCall "context"
  | DebugCall string
  | AckCall Message
  | MarshalCall RequestReplyNotification
  | UnmarshalCall Message
  | ModifyNotificationMessageCall Message "error option"
  | PublishCall string Message

text \<open>
  \<open>PubSubRequestReplyConfig\<close>. A subscriber is its \<open>Subscribe\<close> method; the messages
  of the channel it returns arrive as events of the listener (below). The logger is the
  \<open>DebugCall\<close> entries of the trace.
\<close>

record 'c PubSubRequestReplyConfig =
  Publish :: "string \<Rightarrow> Message \<Rightarrow> error option"
  SubscriberConstructor ::
    "'c PubSubRequestReplyParams \<Rightarrow> error + (context \<Rightarrow> string \<Rightarrow> error option)"
  GenerateReplyNotificationTopic :: "'c PubSubRequestReplyParams \<Rightarrow> error + string"
  Marshal :: "RequestReplyNotification \<Rightarrow> error + Message"
  Unmarshal :: "Message \<Rightarrow> error + RequestReplyNotification"
  ListenForReplyTimeout :: "int option"
  ModifyNotificationMessage :: "(Message \<Rightarrow> error option \<Rightarrow> Message \<times> error option) option"

definition notifyWhenExecutedMetadataKey :: string where
  "notifyWhenExecutedMetadataKey = ''_watermill_notify_when_executed''"

definition handledCommandUuidMetadataKey :: string where
  "handledCommandUuidMetadataKey = ''_watermill_command_message_uuid''"

section \<open>The Pub/Sub backend\<close>

definition ModifyCommandMessageBeforePublish :: "Message \<Rightarrow> 'c \<Rightarrow> Message \<times> error option" where
  "ModifyCommandMessageBeforePublish cmdMsg command =
     (Metadata_Set cmdMsg notifyWhenExecutedMetadataKey ''1'', None)"

subsection \<open>handleNotifyMsg\<close>

text \<open>
  Returns \<open>(ok, err)\<close>. The deferred \<open>msg.Ack()\<close> runs when the function returns, on
  every path, after whatever the body did.
\<close>

definition handleNotifyMsg ::
  "'c PubSubRequestReplyConfig \<Rightarrow> Message \<Rightarrow> string \<Rightarrow> 'c call list
     \<Rightarrow> (bool \<times> error option) \<times> 'c call list" where
  "handleNotifyMsg p msg expectedCommandUuid tr =
     (let (r, tr') =
        (if Metadata_Get msg handledCommandUuidMetadataKey \<noteq> expectedCommandUuid
         then ((False, None),
               tr @ [DebugCall ''Received notify message with different command UUID''])
         else
           (case Unmarshal p msg of
              Inl err \<Rightarrow>
                ((False, Some (Wrap err ''cannot unmarshal request reply notification'')),
                 tr @ [UnmarshalCall msg])
            | Inr notification \<Rightarrow>
                (if HasError notification
                 then ((True, Some (New (Error notification))), tr @ [UnmarshalCall msg])
                 else ((True, None), tr @ [UnmarshalCall msg]))))
      in (r, tr' @ [AckCall msg]))"

subsection \<open>OnCommandProcessed\<close>

definition OnCommandProcessed ::
  "'c PubSubRequestReplyConfig \<Rightarrow> Message \<Rightarrow> 'c \<Rightarrow> error option \<Rightarrow> 'c call list
     \<Rightarrow> error option \<times> 'c call list" where
  "OnCommandProcessed p cmdMsg cmd handleErr tr =
     (if Metadata_Get cmdMsg notifyWhenExecutedMetadataKey \<noteq> ''1''
      then (None,
            tr @ [DebugCall (''RequestReply is enabled, but '' @ notifyWhenExecutedMetadataKey
                              @ '' is missing'')])
      else
        (let tr1 = tr @ [DebugCall ''Sending request reply''];
             notification =
               (case handleErr of
                  None \<Rightarrow> \<lparr>Error = [], HasError = False\<rparr>
                | Some e \<Rightarrow> \<lparr>Error = Error_of e, HasError = True\<rparr>);
             tr2 = tr1 @ [MarshalCall notification]
         in case Marshal p notification of
              Inl err \<Rightarrow> (Some (Wrap err ''cannot marshal request reply notification''), tr2)
            | Inr notificationMsg0 \<Rightarrow>
               (let notificationMsg1 = SetContext notificationMsg0 (MsgContext cmdMsg);
                    notificationMsg2 =
                      Metadata_Set notificationMsg1 handledCommandUuidMetadataKey (UUID cmdMsg);
                    (notificationMsg, modifyErr, tr3) =
                      (case ModifyNotificationMessage p of
                         None \<Rightarrow> (notificationMsg2, None, tr2)
                       | Some modify \<Rightarrow>
                           (fst (modify notificationMsg2 handleErr),
                            snd (modify notificationMsg2 handleErr),
                            tr2 @ [ModifyNotificationMessageCall notificationMsg2 handleErr]))
                in case modifyErr of
                     Some err \<Rightarrow> (Some (Wrap err ''cannot modify notification message''), tr3)
                   | None \<Rightarrow>
                      (let params = \<lparr>CommandUUID = UUID cmdMsg, CommandMessage = cmdMsg,
                                      Command = cmd\<rparr>;
                           tr4 = tr3 @ [GenerateReplyNotificationTopicCall params]
                       in case GenerateReplyNotificationTopic p params of
                            Inl err \<Rightarrow>
                              (Some (Wrap err ''cannot generate request/reply notify topic''), tr4)
                          | Inr replyTopic \<Rightarrow>
                             (let tr5 = tr4 @ [PublishCall replyTopic notificationMsg]
                              in case Publish p replyTopic notificationMsg of
                                   Some err \<Rightarrow>
                                     (Some (Wrap err ''cannot publish command executed message''),
                                      tr5)
                                 | None \<Rightarrow> (None, tr5))))))"

subsection \<open>ListenForReply: the listener goroutine\<close>

text \<open>
  The goroutine is either in its \<open>select\<close>, or blocked in a send on \<open>replyChan\<close>
  (with what follows the send: \<open>return\<close> or \<open>continue\<close>), or it has returned.
  \<open>replyChan\<close> holds the buffered replies, oldest first; \<open>received\<close> is what the caller
  has read from it. \<open>env_ctx\<close>, \<open>env_start\<close> and \<open>env_cmdMsg\<close> are the variables
  \<open>ctx\<close>, \<open>start\<close> and \<open>cmdMsg\<close> captured by the closure.
\<close>

datatype after = ThenReturn | ThenContinue

datatype goroutine = NotStarted | Selecting | Sending CommandReply after | Returned

record 'c listener =
  calls :: "'c call list"
  goroutine :: goroutine
  replyChan :: "CommandReply list"
  chanClosed :: bool
  received :: "CommandReply list"
  env_ctx :: "context"
  env_start :: int
  env_cmdMsg :: Message

text \<open>\<open>make(chan CommandReply, 1)\<close>\<close>

definition replyChanCap :: nat where
  "replyChanCap = 1"

text \<open>The two deferred calls, in the order they run: \<open>cancel()\<close>, then \<open>close(replyChan)\<close>.\<close>

definition returns :: "'c listener \<Rightarrow> 'c listener" where
  "returns l = l\<lparr>calls := calls l @ [CancelCall (env_ctx l)], chanClosed := True,
                 goroutine := Returned\<rparr>"

definition resume :: "after \<Rightarrow> 'c listener \<Rightarrow> 'c listener" where
  "resume k l = (case k of ThenReturn \<Rightarrow> returns l | ThenContinue \<Rightarrow> l\<lparr>goroutine := Selecting\<rparr>)"

text \<open>
  \<open>replyChan <- r\<close>: with room in the buffer the reply is stored and the goroutine goes
  on; with a full buffer the goroutine blocks in the send.
\<close>

definition chan_send :: "CommandReply \<Rightarrow> after \<Rightarrow> 'c listener \<Rightarrow> 'c listener" where
  "chan_send r k l =
     (if length (replyChan l) < replyChanCap
      then resume k (l\<lparr>replyChan := replyChan l @ [r]\<rparr>)
      else l\<lparr>goroutine := Sending r k\<rparr>)"

text \<open>
  What can happen next: the \<open>select\<close> takes \<open>ctx.Done()\<close> (with the clock reading used by
  \<open>time.Since\<close> and the value of \<open>ctx.Err()\<close>), it receives a message from
  \<open>notifyMsgs\<close>, it finds \<open>notifyMsgs\<close> closed, or the caller receives from \<open>replyChan\<close>.
  An event the goroutine cannot take (it is not in its \<open>select\<close>) leaves the state as it is.
\<close>

datatype event = CtxDone int error | NotifyMsg Message | NotifyClosed int | CallerReceive

fun step :: "'c PubSubRequestReplyConfig \<Rightarrow> event \<Rightarrow> 'c listener \<Rightarrow> 'c listener" where
  "step p (CtxDone now err) l =
     (case goroutine l of
        Selecting \<Rightarrow>
          chan_send \<lparr>ReplyMsg = None, Err = Some (ReplyTimeoutError (now - env_start l) err)\<rparr>
            ThenReturn l
      | _ \<Rightarrow> l)"
| "step p (NotifyClosed now) l =
     (case goroutine l of
        Selecting \<Rightarrow>
          chan_send \<lparr>ReplyMsg = None,
                     Err = Some (ReplyTimeoutError (now - env_start l) (New ''subscriber closed''))\<rparr>
            ThenReturn l
      | _ \<Rightarrow> l)"
| "step p (NotifyMsg notifyMsg) l =
     (case goroutine l of
        Selecting \<Rightarrow>
          (let ((ok, handlerErr), tr) = handleNotifyMsg p notifyMsg (UUID (env_cmdMsg l)) (calls l);
               l' = l\<lparr>calls := tr\<rparr>
           in if ok
              then chan_send \<lparr>ReplyMsg = Some notifyMsg,
                              Err = (case handlerErr of
                                       None \<Rightarrow> None
                                     | Some e \<Rightarrow> Some (CommandHandlerError e))\<rparr>
                     ThenContinue l'
              else l')
      | _ \<Rightarrow> l)"
| "step p CallerReceive l =
     (case replyChan l of
        [] \<Rightarrow> l
      | r # rs \<Rightarrow>
          (let l' = l\<lparr>replyChan := rs, received := received l @ [r]\<rparr>
           in case goroutine l' of
                Sending r' k \<Rightarrow> resume k (l'\<lparr>replyChan := rs @ [r']\<rparr>)
              | _ \<Rightarrow> l'))"

fun run :: "'c PubSubRequestReplyConfig \<Rightarrow> 'c listener \<Rightarrow> event list \<Rightarrow> 'c listener" where
  "run p l [] = l"
| "run p l (e # es) = run p (step p e l) es"

text \<open>Every reply written to \<open>replyChan\<close> so far: those already read, then those buffered.\<close>

definition written :: "'c listener \<Rightarrow> CommandReply list" where
  "written l = received l @ replyChan l"

text \<open>
  The part of \<open>ListenForReply\<close> that runs before the goroutine is spawned. \<open>start\<close> is the
  reading of \<open>time.Now()\<close> on entry, \<open>tctx\<close> the clock reading at which
  \<open>context.WithTimeout\<close> is evaluated. On an error no goroutine is started and the
  returned channel is nil.
\<close>

definition ListenForReply ::
  "'c PubSubRequestReplyConfig \<Rightarrow> context \<Rightarrow> Message \<Rightarrow> 'c \<Rightarrow> int \<Rightarrow> int \<Rightarrow> 'c call list
     \<Rightarrow> error option \<times> 'c listener" where
  "ListenForReply p ctx cmdMsg command start tctx tr =
     (let params = \<lparr>CommandUUID = UUID cmdMsg, CommandMessage = cmdMsg, Command = command\<rparr>;
          failed = (\<lambda>err text c t.
             (Some (Wrap err text),
              \<lparr>calls = t, goroutine = NotStarted, replyChan = [], chanClosed = False,
               received = [], env_ctx = c, env_start = start, env_cmdMsg = cmdMsg\<rparr>));
          tr1 = tr @ [SubscriberConstructorCall params]
      in case SubscriberConstructor p params of
           Inl err \<Rightarrow> failed err ''cannot create request/reply notifications subscriber'' ctx tr1
         | Inr notificationsSubscriber \<Rightarrow>
            (let tr2 = tr1 @ [GenerateReplyNotificationTopicCall params]
             in case GenerateReplyNotificationTopic p params of
                  Inl err \<Rightarrow>
                    failed err ''cannot generate request/reply notifications topic'' ctx tr2
                | Inr replyNotificationTopic \<Rightarrow>
                   (let ctx' = (case ListenForReplyTimeout p of
                                  Some d \<Rightarrow> WithTimeout ctx d tctx
                                | None \<Rightarrow> WithCancel ctx);
                        tr3 = tr2 @ [SubscribeCall ctx' replyNotificationTopic]
                    in case notificationsSubscriber ctx' replyNotificationTopic of
                         Some err \<Rightarrow>
                           failed err ''cannot subscribe to request/reply notifications topic''
                             ctx' (tr3 @ [CancelCall ctx'])
                       | None \<Rightarrow>
                           (None,
                            \<lparr>calls = tr3 @ [DebugCall
                                 ''Subscribed to request/reply notifications topic''],
                             goroutine = Selecting, replyChan = [], chanClosed = False,
                             received = [], env_ctx = ctx', env_start = start,
                             env_cmdMsg = cmdMsg\<rparr>))))"

section \<open>The caller side and the handler wrappers (package requestreply)\<close>

text \<open>
  The \<open>Backend\<close> and \<open>CommandBus\<close> interfaces are parameters: a backend is its
  \<open>ListenForNotifications\<close> or its \<open>OnCommandProcessed\<close> method, a command bus its
  \<open>SendWithModifiedMessage\<close> method. A cancel function is named by the context it cancels.
\<close>

record 'c BackendListenForNotificationsParams =
  Command_listen :: "'c"
  OperationID :: string

record ('c, 'r) BackendOnCommandProcessedParams =
  Command_processed :: "'c"
  CommandMessage_processed :: Message
  HandlerResult :: "'r"
  HandleErr :: "error option"

datatype ('c, 'r) rr_call =
    NewUUIDCall
  | ListenForNotificationsCall "context" "'c BackendListenForNotificationsParams"
  | SendWithModifiedMessageCall "context" "'c" "Message \<Rightarrow> Message \<times> error option"
  | CancelFuncCall "context"
  | HandleFuncCall "context" "'c"
  | OnCommandProcessedCall "context" "('c, 'r) BackendOnCommandProcessedParams"

subsection \<open>SendWithReply\<close>

text \<open>
  \<open>OperationIDMetadataKey\<close> is a constant of the package declared outside the three
  sources, and \<open>NewUUID\<close> is the string \<open>watermill.NewUUID()\<close> returns in this call; both
  are parameters. \<open>deferred\<close> is the deferred function: it calls \<open>cancel\<close> when the named
  result \<open>err\<close> is not nil.
\<close>

definition SendWithReply ::
  "string \<Rightarrow> string
     \<Rightarrow> (context \<Rightarrow> 'c BackendListenForNotificationsParams \<Rightarrow> error + 'ch)
     \<Rightarrow> (context \<Rightarrow> 'c \<Rightarrow> (Message \<Rightarrow> Message \<times> error option) \<Rightarrow> error option)
     \<Rightarrow> context \<Rightarrow> 'c \<Rightarrow> ('c, 'r) rr_call list
     \<Rightarrow> ('ch option \<times> context \<times> error option) \<times> ('c, 'r) rr_call list" where
  "SendWithReply OperationIDMetadataKey NewUUID ListenForNotifications SendWithModifiedMessage
       ctx0 cmd tr =
     (let ctx = WithCancel ctx0;
          deferred = (\<lambda>(replCh, cancel, err) t.
             ((replCh, cancel, err),
              (case err of None \<Rightarrow> t | Some _ \<Rightarrow> t @ [CancelFuncCall cancel])));
          operationID = NewUUID;
          tr1 = tr @ [NewUUIDCall];
          params = \<lparr>Command_listen = cmd, OperationID = operationID\<rparr>;
          tr2 = tr1 @ [ListenForNotificationsCall ctx params]
      in case ListenForNotifications ctx params of
           Inl err \<Rightarrow> deferred (None, ctx, Some (Wrap err ''cannot listen for reply'')) tr2
         | Inr replyCh \<Rightarrow>
            (let modify = (\<lambda>m. (Metadata_Set m OperationIDMetadataKey operationID, None));
                 tr3 = tr2 @ [SendWithModifiedMessageCall ctx cmd modify]
             in case SendWithModifiedMessage ctx cmd modify of
                  Some err \<Rightarrow> deferred (None, ctx, Some (Wrap err ''cannot send command'')) tr3
                | None \<Rightarrow> deferred (Some replyCh, ctx, None) tr3))"

subsection \<open>NewCommandHandler and NewCommandHandlerWithResult\<close>

text \<open>
  \<open>cqrs.OriginalMessageFromCtx\<close> is declared outside the three sources and is a
  parameter: it returns the message stored in the context, or nil.
\<close>

definition originalCommandMsgFromCtx ::
  "(context \<Rightarrow> Message option) \<Rightarrow> context \<Rightarrow> error + Message" where
  "originalCommandMsgFromCtx OriginalMessageFromCtx ctx =
     (case OriginalMessageFromCtx ctx of
        None \<Rightarrow>
          Inl (New (''original message not found in context, did you passed context correctly everywhere? ''
                    @ ''did you used cqrs.CommandProcessor? ''
                    @ ''if you are using custom implementation, please call cqrs.CtxWithOriginalMessage on context passed to handler''))
      | Some originalMessage \<Rightarrow> Inr originalMessage)"

text \<open>
  The function each wrapper hands to \<open>cqrs.NewCommandHandler\<close>. With
  \<open>Backend[struct{}]\<close> the field \<open>HandlerResult\<close> is left at its zero value.
\<close>

definition NewCommandHandler ::
  "(context \<Rightarrow> ('c, unit) BackendOnCommandProcessedParams \<Rightarrow> error option)
     \<Rightarrow> (context \<Rightarrow> 'c \<Rightarrow> error option)
     \<Rightarrow> (context \<Rightarrow> Message option)
     \<Rightarrow> context \<Rightarrow> 'c \<Rightarrow> ('c, unit) rr_call list
     \<Rightarrow> error option \<times> ('c, unit) rr_call list" where
  "NewCommandHandler backend_OnCommandProcessed handleFunc OriginalMessageFromCtx ctx cmd tr =
     (let handlerErr = handleFunc ctx cmd;
          tr1 = tr @ [HandleFuncCall ctx cmd]
      in case originalCommandMsgFromCtx OriginalMessageFromCtx ctx of
           Inl err \<Rightarrow> (Some err, tr1)
         | Inr originalMessage \<Rightarrow>
            (let params = \<lparr>Command_processed = cmd, CommandMessage_processed = originalMessage,
                            HandlerResult = (), HandleErr = handlerErr\<rparr>
             in (backend_OnCommandProcessed ctx params,
                 tr1 @ [OnCommandProcessedCall ctx params])))"

definition NewCommandHandlerWithResult ::
  "(context \<Rightarrow> ('c, 'r) BackendOnCommandProcessedParams \<Rightarrow> error option)
     \<Rightarrow> (context \<Rightarrow> 'c \<Rightarrow> 'r \<times> error option)
     \<Rightarrow> (context \<Rightarrow> Message option)
     \<Rightarrow> context \<Rightarrow> 'c \<Rightarrow> ('c, 'r) rr_call list
     \<Rightarrow> error option \<times> ('c, 'r) rr_call list" where
  "NewCommandHandlerWithResult backend_OnCommandProcessed handleFunc OriginalMessageFromCtx
       ctx cmd tr =
     (let (resp, handlerErr) = handleFunc ctx cmd;
          tr1 = tr @ [HandleFuncCall ctx cmd]
      in case originalCommandMsgFromCtx OriginalMessageFromCtx ctx of
           Inl err \<Rightarrow> (Some err, tr1)
         | Inr originalMessage \<Rightarrow>
            (let params = \<lparr>Command_processed = cmd, CommandMessage_processed = originalMessage,
                            HandlerResult = resp, HandleErr = handlerErr\<rparr>
             in (backend_OnCommandProcessed ctx params,
                 tr1 @ [OnCommandProcessedCall ctx params])))"

section \<open>Predicates used in the statements\<close>

text \<open>
  An event after which \<open>replyChan\<close> is as before when the listener is in its \<open>select\<close>
  with an empty channel: a read by the caller, or a notification for which
  \<open>handleNotifyMsg\<close> answers \<open>ok = false\<close> (another command's, or one that cannot be
  unmarshalled).
\<close>

fun no_reply_event :: "'c PubSubRequestReplyConfig \<Rightarrow> string \<Rightarrow> event \<Rightarrow> bool" where
  "no_reply_event p u (NotifyMsg m) = (\<not> fst (fst (handleNotifyMsg p m u [])))"
| "no_reply_event p u CallerReceive = True"
| "no_reply_event p u (CtxDone now err) = False"
| "no_reply_event p u (NotifyClosed now) = False"

text \<open>The two events whose branch of the \<open>select\<close> ends in \<open>return\<close>.\<close>

fun terminating :: "event \<Rightarrow> bool" where
  "terminating (CtxDone now err) = True"
| "terminating (NotifyClosed now) = True"
| "terminating (NotifyMsg m) = False"
| "terminating CallerReceive = False"

text \<open>
  The invariant of a started listener: the channel never holds more than its capacity, it
  is closed exactly when the goroutine has returned, and a goroutine blocked in a send
  faces a full channel.
\<close>

definition listener_inv :: "'c listener \<Rightarrow> bool" where
  "listener_inv l =
     (length (replyChan l) \<le> replyChanCap
      \<and> (case goroutine l of
            NotStarted \<Rightarrow> False
          | Selecting \<Rightarrow> \<not> chanClosed l
          | Sending r k \<Rightarrow> \<not> chanClosed l \<and> length (replyChan l) = replyChanCap
          | Returned \<Rightarrow> chanClosed l))"

text \<open>The goroutine is in its loop: in the \<open>select\<close>, or blocked in the send of a reply
  to a notification.\<close>

definition listening :: "'c listener \<Rightarrow> bool" where
  "listening l =
     (\<not> chanClosed l
      \<and> (case goroutine l of
            Selecting \<Rightarrow> True
          | Sending r k \<Rightarrow> k = ThenContinue
          | _ \<Rightarrow> False))"

text \<open>
  The reply a goroutine blocked in a send is holding, and every reply the listener has
  produced so far: those the caller has read, those in the channel, and the one held.
\<close>

definition pending :: "'c listener \<Rightarrow> CommandReply list" where
  "pending l = (case goroutine l of Sending r k \<Rightarrow> [r] | _ \<Rightarrow> [])"

definition produced :: "'c listener \<Rightarrow> CommandReply list" where
  "produced l = received l @ replyChan l @ pending l"

text \<open>The reply the listener builds from a notification message and its decoded content.\<close>

definition reply_of :: "Message \<Rightarrow> RequestReplyNotification \<Rightarrow> CommandReply" where
  "reply_of msg n =
     \<lparr>ReplyMsg = Some msg,
      Err = (if HasError n then Some (CommandHandlerError (New (Error n))) else None)\<rparr>"

section \<open>A concrete configuration\<close>

text \<open>
  A marshaler that writes \<open>E\<close> followed by the error text, or \<open>S\<close>, into the payload;
  a publisher, a subscriber and a topic generator that never fail; a timeout of 50.
\<close>

definition ex_marshal :: "RequestReplyNotification \<Rightarrow> error + Message" where
  "ex_marshal n =
     Inr \<lparr>UUID = ''notification-1'', Metadata = Map.empty,
          Payload = (if HasError n then CHR ''E'' # Error n else ''S''),
          MsgContext = Ctx 0\<rparr>"

definition ex_unmarshal :: "Message \<Rightarrow> error + RequestReplyNotification" where
  "ex_unmarshal m =
     (case Payload m of
        [] \<Rightarrow> Inl (New ''empty payload'')
      | c # s \<Rightarrow>
          if c = CHR ''E'' then Inr \<lparr>Error = s, HasError = True\<rparr>
          else Inr \<lparr>Error = [], HasError = False\<rparr>)"

definition ex_config :: "string PubSubRequestReplyConfig" where
  "ex_config =
     \<lparr>Publish = (\<lambda>topic m. None),
      SubscriberConstructor = (\<lambda>ps. Inr (\<lambda>c topic. None)),
      GenerateReplyNotificationTopic = (\<lambda>ps. Inr (''replies_'' @ CommandUUID ps)),
      Marshal = ex_marshal,
      Unmarshal = ex_unmarshal,
      ListenForReplyTimeout = Some 50,
      ModifyNotificationMessage = None\<rparr>"

definition ex_cmdMsg :: Message where
  "ex_cmdMsg =
     \<lparr>UUID = ''cmd-1'', Metadata = [notifyWhenExecutedMetadataKey \<mapsto> ''1''],
      Payload = ''{}'', MsgContext = Ctx 0\<rparr>"

definition ex_notifyMsg :: "string \<Rightarrow> string \<Rightarrow> Message" where
  "ex_notifyMsg u pl =
     \<lparr>UUID = ''notification-1'', Metadata = [handledCommandUuidMetadataKey \<mapsto> u],
      Payload = pl, MsgContext = Ctx 0\<rparr>"

definition ex_listener :: "string listener" where
  "ex_listener = snd (ListenForReply ex_config (Ctx 0) ex_cmdMsg ''cmd'' 0 1 [])"

section \<open>Facts about the backend\<close>

subsection \<open>handleNotifyMsg on its three paths\<close>

lemma handleNotifyMsg_mismatch:
  "Metadata_Get msg handledCommandUuidMetadataKey \<noteq> u \<Longrightarrow>
   handleNotifyMsg p msg u tr =
     ((False, None),
      tr @ [DebugCall ''Received notify message with different command UUID'', AckCall msg])"
  by (simp add: handleNotifyMsg_def)

lemma handleNotifyMsg_undecodable:
  "Metadata_Get msg handledCommandUuidMetadataKey = u \<Longrightarrow> Unmarshal p msg = Inl err \<Longrightarrow>
   handleNotifyMsg p msg u tr =
     ((False, Some (Wrap err ''cannot unmarshal request reply notification'')),
      tr @ [UnmarshalCall msg, AckCall msg])"
  by (simp add: handleNotifyMsg_def)

lemma handleNotifyMsg_decoded:
  "Metadata_Get msg handledCommandUuidMetadataKey = u \<Longrightarrow> Unmarshal p msg = Inr n \<Longrightarrow>
   handleNotifyMsg p msg u tr =
     ((True, if HasError n then Some (New (Error n)) else None),
      tr @ [UnmarshalCall msg, AckCall msg])"
  by (simp add: handleNotifyMsg_def)

lemma handleNotifyMsg_fst: "fst (handleNotifyMsg p m u tr) = fst (handleNotifyMsg p m u [])"
  by (simp add: handleNotifyMsg_def split: sum.splits)

subsection \<open>The marker set on outgoing commands\<close>

lemma ModifyCommandMessageBeforePublish_marks:
  "ModifyCommandMessageBeforePublish cmdMsg command = (m, err) \<Longrightarrow>
   err = None \<and> Metadata_Get m notifyWhenExecutedMetadataKey = ''1''"
  by (auto simp add: ModifyCommandMessageBeforePublish_def Metadata_Get_def Metadata_Set_def)

subsection \<open>The state in which ListenForReply leaves a started listener\<close>

lemma ListenForReply_started:
  assumes "fst (ListenForReply p ctx cmdMsg command start tctx tr) = None"
  shows "goroutine (snd (ListenForReply p ctx cmdMsg command start tctx tr)) = Selecting
       \<and> replyChan (snd (ListenForReply p ctx cmdMsg command start tctx tr)) = []
       \<and> received (snd (ListenForReply p ctx cmdMsg command start tctx tr)) = []
       \<and> \<not> chanClosed (snd (ListenForReply p ctx cmdMsg command start tctx tr))
       \<and> env_start (snd (ListenForReply p ctx cmdMsg command start tctx tr)) = start
       \<and> env_cmdMsg (snd (ListenForReply p ctx cmdMsg command start tctx tr)) = cmdMsg
       \<and> env_ctx (snd (ListenForReply p ctx cmdMsg command start tctx tr)) =
           (case ListenForReplyTimeout p of Some d \<Rightarrow> WithDeadline ctx (tctx + d)
            | None \<Rightarrow> WithCancel ctx)"
  using assms
  by (auto simp add: ListenForReply_def Let_def WithTimeout_def split: sum.splits option.splits)

lemma started_inv:
  assumes "fst (ListenForReply p ctx cmdMsg command start tctx tr) = None"
  shows "listener_inv (snd (ListenForReply p ctx cmdMsg command start tctx tr))
       \<and> listening (snd (ListenForReply p ctx cmdMsg command start tctx tr))"
  using ListenForReply_started[OF assms]
  by (simp add: listener_inv_def listening_def replyChanCap_def)

subsection \<open>Runs of the listener\<close>

lemma run_append: "run p l (es @ es') = run p (run p l es) es'"
  by (induction es arbitrary: l) simp_all

lemma step_quiet:
  assumes "no_reply_event p (UUID (env_cmdMsg l)) e" "goroutine l = Selecting" "replyChan l = []"
  shows "goroutine (step p e l) = Selecting \<and> replyChan (step p e l) = []
       \<and> received (step p e l) = received l \<and> chanClosed (step p e l) = chanClosed l
       \<and> env_ctx (step p e l) = env_ctx l \<and> env_start (step p e l) = env_start l
       \<and> env_cmdMsg (step p e l) = env_cmdMsg l"
proof (cases e)
  case (NotifyMsg m)
  with assms have "\<not> fst (fst (handleNotifyMsg p m (UUID (env_cmdMsg l)) (calls l)))"
    using handleNotifyMsg_fst[of p m "UUID (env_cmdMsg l)" "calls l"] by simp
  with NotifyMsg assms show ?thesis by (simp add: split_def)
qed (use assms in simp_all)

lemma run_quiet:
  assumes "\<forall>x\<in>set es. no_reply_event p (UUID (env_cmdMsg l)) x"
    "goroutine l = Selecting" "replyChan l = []"
  shows "goroutine (run p l es) = Selecting \<and> replyChan (run p l es) = []
       \<and> received (run p l es) = received l \<and> chanClosed (run p l es) = chanClosed l
       \<and> env_ctx (run p l es) = env_ctx l \<and> env_start (run p l es) = env_start l
       \<and> env_cmdMsg (run p l es) = env_cmdMsg l"
  using assms
proof (induction es arbitrary: l)
  case Nil
  then show ?case by simp
next
  case (Cons e es)
  from Cons.prems have q: "no_reply_event p (UUID (env_cmdMsg l)) e" by simp
  note s = step_quiet[OF q Cons.prems(2) Cons.prems(3)]
  from Cons.prems s have "\<forall>x\<in>set es. no_reply_event p (UUID (env_cmdMsg (step p e l))) x"
    by simp
  from Cons.IH[OF this] s show ?case by simp
qed

lemma step_Returned:
  "goroutine l = Returned \<Longrightarrow>
   goroutine (step p e l) = Returned \<and> chanClosed (step p e l) = chanClosed l
   \<and> written (step p e l) = written l"
  by (cases e) (auto simp: written_def split: list.splits)

lemma run_Returned:
  "goroutine l = Returned \<Longrightarrow>
   goroutine (run p l es) = Returned \<and> chanClosed (run p l es) = chanClosed l
   \<and> written (run p l es) = written l"
proof (induction es arbitrary: l)
  case Nil
  then show ?case by simp
next
  case (Cons e es)
  from step_Returned[OF Cons.prems, of p e] Cons.IH[of "step p e l"] show ?case by simp
qed

subsection \<open>The invariant\<close>

lemma chan_send_inv:
  assumes "listener_inv l" "goroutine l = Selecting"
  shows "listener_inv (chan_send r k l)"
proof (cases "replyChan l")
  case Nil
  with assms show ?thesis
    by (cases k)
       (simp_all add: listener_inv_def chan_send_def resume_def returns_def replyChanCap_def)
next
  case (Cons x xs)
  with assms show ?thesis
    by (simp add: listener_inv_def chan_send_def replyChanCap_def)
qed

lemma calls_update_inv: "listener_inv (l\<lparr>calls := tr\<rparr>) = listener_inv l"
  by (cases "goroutine l") (simp_all add: listener_inv_def)

lemma step_inv:
  assumes "listener_inv l"
  shows "listener_inv (step p e l)"
proof (cases e)
  case (CtxDone now err)
  with assms show ?thesis
    by (cases "goroutine l") (simp_all add: chan_send_inv)
next
  case (NotifyClosed now)
  with assms show ?thesis
    by (cases "goroutine l") (simp_all add: chan_send_inv)
next
  case (NotifyMsg m)
  show ?thesis
  proof (cases "goroutine l")
    case Selecting
    with assms NotifyMsg show ?thesis
      by (simp add: split_def Let_def chan_send_inv calls_update_inv)
  qed (use assms NotifyMsg in simp_all)
next
  case CallerReceive
  show ?thesis
  proof (cases "replyChan l")
    case Nil
    with assms CallerReceive show ?thesis by simp
  next
    case (Cons x xs)
    with assms have xs: "xs = []" by (simp add: listener_inv_def replyChanCap_def)
    show ?thesis
    proof (cases "goroutine l")
      case (Sending r' k)
      with assms CallerReceive Cons xs show ?thesis
        by (cases k) (simp_all add: listener_inv_def resume_def returns_def replyChanCap_def)
    qed (use assms CallerReceive Cons xs in \<open>simp_all add: listener_inv_def replyChanCap_def\<close>)
  qed
qed

lemma run_inv: "listener_inv l \<Longrightarrow> listener_inv (run p l es)"
  by (induction es arbitrary: l) (simp_all add: step_inv)

lemma inv_closed_iff: "listener_inv l \<Longrightarrow> chanClosed l \<longleftrightarrow> goroutine l = Returned"
  by (cases "goroutine l") (simp_all add: listener_inv_def)

lemma listening_step:
  assumes "listening l" "\<not> terminating e"
  shows "listening (step p e l)"
proof (cases e)
  case (NotifyMsg m)
  show ?thesis
  proof (cases "goroutine l")
    case Selecting
    with assms NotifyMsg show ?thesis
      by (simp add: listening_def split_def Let_def chan_send_def resume_def)
  qed (use assms NotifyMsg in \<open>simp_all add: listening_def\<close>)
next
  case CallerReceive
  show ?thesis
  proof (cases "replyChan l")
    case Nil
    with assms CallerReceive show ?thesis by simp
  next
    case (Cons x xs)
    show ?thesis
    proof (cases "goroutine l")
      case (Sending r' k)
      with assms CallerReceive Cons show ?thesis
        by (simp add: listening_def resume_def)
    qed (use assms CallerReceive Cons in \<open>simp_all add: listening_def\<close>)
  qed
qed (use assms in simp_all)

lemma listening_run:
  assumes "listening l" "\<forall>e\<in>set es. \<not> terminating e"
  shows "listening (run p l es)"
  using assms by (induction es arbitrary: l) (simp_all add: listening_step)

lemma listening_not_returned: "listening l \<Longrightarrow> goroutine l \<noteq> Returned \<and> \<not> chanClosed l"
  by (cases "goroutine l") (simp_all add: listening_def)

subsection \<open>Sends on the reply channel and reads by the caller\<close>

lemma chan_send_empty:
  "replyChan l = [] \<Longrightarrow> chan_send r k l = resume k (l\<lparr>replyChan := [r]\<rparr>)"
  by (simp add: chan_send_def replyChanCap_def)

lemma chan_send_full:
  "replyChan l \<noteq> [] \<Longrightarrow> chan_send r k l = l\<lparr>goroutine := Sending r k\<rparr>"
  by (cases "replyChan l") (simp_all add: chan_send_def replyChanCap_def)

lemma resume_not_sending: "goroutine (resume k l) \<noteq> Sending r' k'"
  by (cases k) (simp_all add: resume_def returns_def)

lemma step_blocked_read:
  "goroutine l = Sending r k \<Longrightarrow> replyChan l = x # xs \<Longrightarrow>
   step p CallerReceive l = resume k (l\<lparr>received := received l @ [x], replyChan := xs @ [r]\<rparr>)"
  by (simp add: Let_def)

lemma step_blocked_other:
  "goroutine l = Sending r k \<Longrightarrow> e \<noteq> CallerReceive \<Longrightarrow> step p e l = l"
  by (cases e) simp_all

lemma step_match:
  assumes "goroutine l = Selecting"
    and "Metadata_Get msg handledCommandUuidMetadataKey = UUID (env_cmdMsg l)"
    and "Unmarshal p msg = Inr n"
  shows "step p (NotifyMsg msg) l =
           chan_send (reply_of msg n) ThenContinue
             (l\<lparr>calls := calls l @ [UnmarshalCall msg, AckCall msg]\<rparr>)"
  using assms(1) by (simp add: handleNotifyMsg_decoded[OF assms(2) assms(3)] reply_of_def)

lemma produced_read: "produced (step p CallerReceive l) = produced l"
proof (cases "replyChan l")
  case Nil
  then show ?thesis by simp
next
  case (Cons x xs)
  show ?thesis
  proof (cases "goroutine l")
    case (Sending r k)
    with Cons show ?thesis
      by (cases k) (simp_all add: produced_def pending_def resume_def returns_def)
  qed (use Cons in \<open>simp_all add: produced_def pending_def\<close>)
qed

lemma produced_match:
  assumes "goroutine l = Selecting"
    and "Metadata_Get msg handledCommandUuidMetadataKey = UUID (env_cmdMsg l)"
    and "Unmarshal p msg = Inr n"
  shows "produced (step p (NotifyMsg msg) l) = produced l @ [reply_of msg n]"
proof (cases "replyChan l")
  case Nil
  with assms(1) show ?thesis
    by (simp only: step_match[OF assms])
       (simp add: chan_send_empty produced_def pending_def resume_def)
next
  case (Cons x xs)
  with assms(1) show ?thesis
    by (simp only: step_match[OF assms])
       (simp add: chan_send_full produced_def pending_def)
qed

lemma blocked_reply_delivered:
  assumes "listener_inv l" "goroutine l = Sending r ThenContinue"
  shows "received (run p l [CallerReceive, CallerReceive]) = received l @ replyChan l @ [r]
       \<and> goroutine (run p l [CallerReceive, CallerReceive]) = Selecting"
proof -
  from assms obtain x where x: "replyChan l = [x]"
    by (cases "replyChan l") (auto simp add: listener_inv_def replyChanCap_def)
  from assms(2) x show ?thesis
    by (simp add: resume_def)
qed

subsection \<open>The trace of a successful OnCommandProcessed\<close>




subsection \<open>The concrete configuration\<close>

lemma ex_listener_eq:
  "ex_listener =
     \<lparr>calls = [SubscriberConstructorCall
                 \<lparr>CommandUUID = ''cmd-1'', CommandMessage = ex_cmdMsg, Command = ''cmd''\<rparr>,
               GenerateReplyNotificationTopicCall
                 \<lparr>CommandUUID = ''cmd-1'', CommandMessage = ex_cmdMsg, Command = ''cmd''\<rparr>,
               SubscribeCall (WithDeadline (Ctx 0) 51) ''replies_cmd-1'',
               DebugCall ''Subscribed to request/reply notifications topic''],
      goroutine = Selecting, replyChan = [], chanClosed = False, received = [],
      env_ctx = WithDeadline (Ctx 0) 51, env_start = 0, env_cmdMsg = ex_cmdMsg\<rparr>"
  by (simp add: ex_listener_def ListenForReply_def ex_config_def Let_def WithTimeout_def
      ex_cmdMsg_def)

lemma ex_started: "fst (ListenForReply ex_config (Ctx 0) ex_cmdMsg ''cmd'' 0 1 []) = None"
  by (simp add: ListenForReply_def ex_config_def Let_def)

lemma ex_handled_id:
  "Metadata_Get (ex_notifyMsg u pl) handledCommandUuidMetadataKey = u"
  by (simp add: ex_notifyMsg_def Metadata_Get_def)

lemma ex_unmarshal_ok:
  "Unmarshal ex_config (ex_notifyMsg u ''S'') = Inr \<lparr>Error = [], HasError = False\<rparr>"
  "Unmarshal ex_config (ex_notifyMsg u (CHR ''E'' # s)) = Inr \<lparr>Error = s, HasError = True\<rparr>"
  "Unmarshal ex_config (ex_notifyMsg u []) = Inl (New ''empty payload'')"
  by (simp_all add: ex_config_def ex_unmarshal_def ex_notifyMsg_def)

lemma ex_uuid: "UUID ex_cmdMsg = ''cmd-1''"
  by (simp add: ex_cmdMsg_def)

lemma ex_handle_success:
  "handleNotifyMsg ex_config (ex_notifyMsg ''cmd-1'' ''S'') ''cmd-1'' tr =
     ((True, None),
      tr @ [UnmarshalCall (ex_notifyMsg ''cmd-1'' ''S''), AckCall (ex_notifyMsg ''cmd-1'' ''S'')])"
  using handleNotifyMsg_decoded[OF ex_handled_id ex_unmarshal_ok(1), of "''cmd-1''" tr]
  by simp

lemma ex_handle_other:
  "handleNotifyMsg ex_config (ex_notifyMsg ''cmd-2'' ''S'') ''cmd-1'' tr =
     ((False, None),
      tr @ [DebugCall ''Received notify message with different command UUID'',
            AckCall (ex_notifyMsg ''cmd-2'' ''S'')])"
  by (rule handleNotifyMsg_mismatch) (simp add: ex_handled_id)

section \<open>The claims\<close>

subsection \<open>Notifications that produce no reply\<close>

text \<open>
  Claim C3. A notification received by the listener whose handled-command-id metadata
  differs from the UUID of the command message is acknowledged (after the debug line about
  the different UUID), nothing is written to the reply channel, and the goroutine is back in
  its \<open>select\<close>: it has not returned and the channel is as open as it was.
\<close>

theorem mismatched_notification_skipped:
  assumes "goroutine l = Selecting"
    and "Metadata_Get msg handledCommandUuidMetadataKey \<noteq> UUID (env_cmdMsg l)"
  shows "step p (NotifyMsg msg) l =
           l\<lparr>calls := calls l @
              [DebugCall ''Received notify message with different command UUID'', AckCall msg]\<rparr>
       \<and> written (step p (NotifyMsg msg) l) = written l
       \<and> goroutine (step p (NotifyMsg msg) l) = Selecting
       \<and> chanClosed (step p (NotifyMsg msg) l) = chanClosed l"
  using assms by (simp add: handleNotifyMsg_mismatch written_def)

theorem mismatched_notification_skipped_witness:
  "goroutine ex_listener = Selecting
 \<and> Metadata_Get (ex_notifyMsg ''cmd-2'' ''S'') handledCommandUuidMetadataKey
      \<noteq> UUID (env_cmdMsg ex_listener)
 \<and> step ex_config (NotifyMsg (ex_notifyMsg ''cmd-2'' ''S'')) ex_listener =
      ex_listener\<lparr>calls := calls ex_listener @
         [DebugCall ''Received notify message with different command UUID'',
          AckCall (ex_notifyMsg ''cmd-2'' ''S'')]\<rparr>
 \<and> written (step ex_config (NotifyMsg (ex_notifyMsg ''cmd-2'' ''S'')) ex_listener) = []"
proof -
  have h1: "goroutine ex_listener = Selecting"
    by (simp add: ex_listener_eq)
  have h2: "Metadata_Get (ex_notifyMsg ''cmd-2'' ''S'') handledCommandUuidMetadataKey
              \<noteq> UUID (env_cmdMsg ex_listener)"
    by (simp add: ex_handled_id ex_listener_eq ex_cmdMsg_def)
  have h3: "written ex_listener = []"
    by (simp add: written_def ex_listener_eq)
  from mismatched_notification_skipped[OF h1 h2, of ex_config] h1 h2 h3 show ?thesis
    by (auto simp del: step.simps simp add: written_def)
qed

text \<open>
  Claim C10. A notification whose handled-command-id metadata equals the UUID of the
  command message but whose payload cannot be unmarshalled is acknowledged; the error of
  \<open>Unmarshal\<close> goes nowhere: the trace gains the \<open>Unmarshal\<close> call and the
  acknowledgement and no log line, nothing is written to the reply channel, and the
  goroutine is back in its \<open>select\<close>.
\<close>

theorem undecodable_notification_dropped:
  assumes "goroutine l = Selecting"
    and "Metadata_Get msg handledCommandUuidMetadataKey = UUID (env_cmdMsg l)"
    and "Unmarshal p msg = Inl err"
  shows "step p (NotifyMsg msg) l = l\<lparr>calls := calls l @ [UnmarshalCall msg, AckCall msg]\<rparr>
       \<and> written (step p (NotifyMsg msg) l) = written l
       \<and> goroutine (step p (NotifyMsg msg) l) = Selecting
       \<and> chanClosed (step p (NotifyMsg msg) l) = chanClosed l"
  using assms by (simp add: handleNotifyMsg_undecodable written_def)

theorem undecodable_notification_dropped_witness:
  "goroutine ex_listener = Selecting
 \<and> Metadata_Get (ex_notifyMsg ''cmd-1'' []) handledCommandUuidMetadataKey
      = UUID (env_cmdMsg ex_listener)
 \<and> Unmarshal ex_config (ex_notifyMsg ''cmd-1'' []) = Inl (New ''empty payload'')
 \<and> step ex_config (NotifyMsg (ex_notifyMsg ''cmd-1'' [])) ex_listener =
      ex_listener\<lparr>calls := calls ex_listener @
         [UnmarshalCall (ex_notifyMsg ''cmd-1'' []), AckCall (ex_notifyMsg ''cmd-1'' [])]\<rparr>
 \<and> written (step ex_config (NotifyMsg (ex_notifyMsg ''cmd-1'' [])) ex_listener) = []"
proof -
  have h1: "goroutine ex_listener = Selecting"
    by (simp add: ex_listener_eq)
  have h2: "Metadata_Get (ex_notifyMsg ''cmd-1'' []) handledCommandUuidMetadataKey
              = UUID (env_cmdMsg ex_listener)"
    by (simp add: ex_handled_id ex_listener_eq ex_cmdMsg_def)
  have h3: "Unmarshal ex_config (ex_notifyMsg ''cmd-1'' []) = Inl (New ''empty payload'')"
    by (rule ex_unmarshal_ok)
  have h4: "written ex_listener = []"
    by (simp add: written_def ex_listener_eq)
  from undecodable_notification_dropped[OF h1 h2 h3] h1 h2 h3 h4 show ?thesis
    by (auto simp del: step.simps simp add: written_def)
qed

subsection \<open>OnCommandProcessed without the marker\<close>

text \<open>
  Claim C8. When the metadata of the command message does not hold the value \<open>1\<close> under
  the key \<open>_watermill_notify_when_executed\<close>, \<open>OnCommandProcessed\<close> returns nil and its
  only effect is one debug line: no call of the marshaler, of the topic generator or of
  the publisher.
\<close>

theorem unmarked_command_not_notified:
  assumes "Metadata_Get cmdMsg notifyWhenExecutedMetadataKey \<noteq> ''1''"
  shows "OnCommandProcessed p cmdMsg cmd handleErr tr =
           (None, tr @ [DebugCall (''RequestReply is enabled, but ''
                                    @ notifyWhenExecutedMetadataKey @ '' is missing'')])"
  using assms by (simp add: OnCommandProcessed_def)

theorem unmarked_command_not_notified_witness:
  "Metadata_Get (ex_notifyMsg ''cmd-1'' ''S'') notifyWhenExecutedMetadataKey \<noteq> ''1''
 \<and> OnCommandProcessed ex_config (ex_notifyMsg ''cmd-1'' ''S'') ''cmd'' (Some (New ''failed'')) []
     = (None, [DebugCall ''RequestReply is enabled, but _watermill_notify_when_executed is missing''])"
proof -
  have h: "Metadata_Get (ex_notifyMsg ''cmd-1'' ''S'') notifyWhenExecutedMetadataKey \<noteq> ''1''"
    by (simp add: ex_notifyMsg_def Metadata_Get_def notifyWhenExecutedMetadataKey_def
        handledCommandUuidMetadataKey_def)
  from unmarked_command_not_notified[OF h, of ex_config "''cmd''" "Some (New ''failed'')" "[]"] h
  show ?thesis by (simp add: notifyWhenExecutedMetadataKey_def)
qed

subsection \<open>The handler wrappers\<close>

text \<open>
  Claim C7. The function built by \<open>NewCommandHandlerWithResult\<close> (and the one built by
  \<open>NewCommandHandler\<close>) runs the handler and then, when the original message is found in
  the context, calls \<open>OnCommandProcessed\<close> exactly once, with the command, that message
  and the handler's result and error, whatever they are, and returns what that call
  returns. When the original message is not found it returns an error and
  \<open>OnCommandProcessed\<close> is not called.
\<close>

theorem wrapped_handler_reports_once:
  "(orig ctx = Some m \<longrightarrow>
      NewCommandHandlerWithResult backend handleFunc orig ctx cmd tr =
        (backend ctx \<lparr>Command_processed = cmd, CommandMessage_processed = m,
                      HandlerResult = fst (handleFunc ctx cmd),
                      HandleErr = snd (handleFunc ctx cmd)\<rparr>,
         tr @ [HandleFuncCall ctx cmd,
               OnCommandProcessedCall ctx
                 \<lparr>Command_processed = cmd, CommandMessage_processed = m,
                  HandlerResult = fst (handleFunc ctx cmd),
                  HandleErr = snd (handleFunc ctx cmd)\<rparr>]))
 \<and> (orig ctx = None \<longrightarrow>
      fst (NewCommandHandlerWithResult backend handleFunc orig ctx cmd tr) \<noteq> None
    \<and> snd (NewCommandHandlerWithResult backend handleFunc orig ctx cmd tr)
        = tr @ [HandleFuncCall ctx cmd])
 \<and> (orig ctx = Some m \<longrightarrow>
      NewCommandHandler backend0 handleFunc0 orig ctx cmd tr0 =
        (backend0 ctx \<lparr>Command_processed = cmd, CommandMessage_processed = m,
                       HandlerResult = (), HandleErr = handleFunc0 ctx cmd\<rparr>,
         tr0 @ [HandleFuncCall ctx cmd,
                OnCommandProcessedCall ctx
                  \<lparr>Command_processed = cmd, CommandMessage_processed = m,
                   HandlerResult = (), HandleErr = handleFunc0 ctx cmd\<rparr>]))
 \<and> (orig ctx = None \<longrightarrow>
      fst (NewCommandHandler backend0 handleFunc0 orig ctx cmd tr0) \<noteq> None
    \<and> snd (NewCommandHandler backend0 handleFunc0 orig ctx cmd tr0)
        = tr0 @ [HandleFuncCall ctx cmd])"
  by (simp add: NewCommandHandlerWithResult_def NewCommandHandler_def
      originalCommandMsgFromCtx_def Let_def split: prod.splits)

theorem wrapped_handler_reports_once_witness:
  "snd (NewCommandHandlerWithResult (\<lambda>c ps. None) (\<lambda>c x. (3::nat, Some (New ''failed'')))
          (\<lambda>c. Some ex_cmdMsg) (Ctx 0) ''cmd'' [])
     = [HandleFuncCall (Ctx 0) ''cmd'',
        OnCommandProcessedCall (Ctx 0)
          \<lparr>Command_processed = ''cmd'', CommandMessage_processed = ex_cmdMsg,
           HandlerResult = 3, HandleErr = Some (New ''failed'')\<rparr>]
 \<and> snd (NewCommandHandler (\<lambda>c ps. None) (\<lambda>c x. Some (New ''failed''))
          (\<lambda>c. Some ex_cmdMsg) (Ctx 0) ''cmd'' [])
     = [HandleFuncCall (Ctx 0) ''cmd'',
        OnCommandProcessedCall (Ctx 0)
          \<lparr>Command_processed = ''cmd'', CommandMessage_processed = ex_cmdMsg,
           HandlerResult = (), HandleErr = Some (New ''failed'')\<rparr>]
 \<and> fst (NewCommandHandlerWithResult (\<lambda>c ps. None) (\<lambda>c x. (3::nat, None))
          (\<lambda>c. None) (Ctx 0) ''cmd'' []) \<noteq> None
 \<and> snd (NewCommandHandlerWithResult (\<lambda>c ps. None) (\<lambda>c x. (3::nat, None))
          (\<lambda>c. None) (Ctx 0) ''cmd'' []) = [HandleFuncCall (Ctx 0) ''cmd'']
 \<and> snd (NewCommandHandler (\<lambda>c ps. None) (\<lambda>c x. None)
          (\<lambda>c. None) (Ctx 0) ''cmd'' []) = [HandleFuncCall (Ctx 0) ''cmd'']"
  using
    wrapped_handler_reports_once[of "\<lambda>c. Some ex_cmdMsg" "Ctx 0" ex_cmdMsg
      "\<lambda>c ps. None" "\<lambda>c x. (3::nat, Some (New ''failed''))" "''cmd''" "[]"
      "\<lambda>c ps. None" "\<lambda>c x. Some (New ''failed'')" "[]"]
    wrapped_handler_reports_once[of "\<lambda>c. None" "Ctx 0" ex_cmdMsg
      "\<lambda>c ps. None" "\<lambda>c x. (3::nat, None)" "''cmd''" "[]"
      "\<lambda>c ps. None" "\<lambda>c x. None" "[]"]
  by simp

subsection \<open>SendWithReply\<close>

text \<open>
  Claim C2. When \<open>ListenForNotifications\<close> returns an error, \<open>SendWithReply\<close> returns
  that error wrapped, with no reply channel, and the command bus is never called: the
  calls made are \<open>NewUUID\<close>, the listen call and the deferred cancel. When listening
  succeeded and \<open>SendWithModifiedMessage\<close> returns an error, that error is returned
  wrapped and the deferred function cancels the very context the listener was started
  with.
\<close>

theorem SendWithReply_setup_failure:
  "(listen (WithCancel ctx0) \<lparr>Command_listen = cmd, OperationID = uuid\<rparr> = Inl e \<longrightarrow>
      SendWithReply key uuid listen send ctx0 cmd tr =
        ((None, WithCancel ctx0, Some (Wrap e ''cannot listen for reply'')),
         tr @ [NewUUIDCall,
               ListenForNotificationsCall (WithCancel ctx0)
                 \<lparr>Command_listen = cmd, OperationID = uuid\<rparr>,
               CancelFuncCall (WithCancel ctx0)]))
 \<and> (listen (WithCancel ctx0) \<lparr>Command_listen = cmd, OperationID = uuid\<rparr> = Inr ch
      \<and> send (WithCancel ctx0) cmd (\<lambda>m. (Metadata_Set m key uuid, None)) = Some e' \<longrightarrow>
      SendWithReply key uuid listen send ctx0 cmd tr =
        ((None, WithCancel ctx0, Some (Wrap e' ''cannot send command'')),
         tr @ [NewUUIDCall,
               ListenForNotificationsCall (WithCancel ctx0)
                 \<lparr>Command_listen = cmd, OperationID = uuid\<rparr>,
               SendWithModifiedMessageCall (WithCancel ctx0) cmd
                 (\<lambda>m. (Metadata_Set m key uuid, None)),
               CancelFuncCall (WithCancel ctx0)]))"
  by (simp add: SendWithReply_def Let_def)

theorem SendWithReply_setup_failure_witness:
  "SendWithReply ''op_id'' ''uuid-1'' (\<lambda>c ps. Inl (New ''no subscriber'')) (\<lambda>c x f. None)
     (Ctx 0) ''cmd'' []
   = ((None :: nat option, WithCancel (Ctx 0),
       Some (Wrap (New ''no subscriber'') ''cannot listen for reply'')),
      [NewUUIDCall,
       ListenForNotificationsCall (WithCancel (Ctx 0))
         \<lparr>Command_listen = ''cmd'', OperationID = ''uuid-1''\<rparr>,
       CancelFuncCall (WithCancel (Ctx 0))])
 \<and> SendWithReply ''op_id'' ''uuid-1'' (\<lambda>c ps. Inr (7::nat)) (\<lambda>c x f. Some (New ''bus down''))
     (Ctx 0) ''cmd'' []
   = ((None, WithCancel (Ctx 0), Some (Wrap (New ''bus down'') ''cannot send command'')),
      [NewUUIDCall,
       ListenForNotificationsCall (WithCancel (Ctx 0))
         \<lparr>Command_listen = ''cmd'', OperationID = ''uuid-1''\<rparr>,
       SendWithModifiedMessageCall (WithCancel (Ctx 0)) ''cmd''
         (\<lambda>m. (Metadata_Set m ''op_id'' ''uuid-1'', None)),
       CancelFuncCall (WithCancel (Ctx 0))])"
  using
    SendWithReply_setup_failure[of "\<lambda>c ps. Inl (New ''no subscriber'')" "Ctx 0" "''cmd''"
      "''uuid-1''" "New ''no subscriber''" "''op_id''" "\<lambda>c x f. None" "[]"]
    SendWithReply_setup_failure[of "\<lambda>c ps. Inr (7::nat)" "Ctx 0" "''cmd''"
      "''uuid-1''" "New ''none''" "''op_id''" "\<lambda>c x f. Some (New ''bus down'')" "[]" 7
      "New ''bus down''"]
  by simp

text \<open>
  Claim C6. \<open>SendWithReply\<close> takes the operation id from \<open>NewUUID\<close>, calls the
  backend's \<open>ListenForNotifications\<close> with it, and only when that succeeded calls
  \<open>SendWithModifiedMessage\<close>, once, with a function that sets the operation id in the
  metadata of the message; when listening failed nothing is sent. In \<open>ListenForReply\<close>,
  whenever a channel is returned, \<open>Subscribe\<close> has been called on the listening context
  and has returned without error before; when an error is returned no goroutine was
  started.
\<close>

theorem SendWithReply_listens_then_sends:
  "(listen (WithCancel ctx0) \<lparr>Command_listen = cmd, OperationID = uuid\<rparr> = Inl e \<longrightarrow>
      snd (SendWithReply key uuid listen send ctx0 cmd tr) =
         tr @ [NewUUIDCall,
               ListenForNotificationsCall (WithCancel ctx0)
                 \<lparr>Command_listen = cmd, OperationID = uuid\<rparr>,
               CancelFuncCall (WithCancel ctx0)])
 \<and> (listen (WithCancel ctx0) \<lparr>Command_listen = cmd, OperationID = uuid\<rparr> = Inr ch \<longrightarrow>
      snd (SendWithReply key uuid listen send ctx0 cmd tr) =
         tr @ [NewUUIDCall,
               ListenForNotificationsCall (WithCancel ctx0)
                 \<lparr>Command_listen = cmd, OperationID = uuid\<rparr>,
               SendWithModifiedMessageCall (WithCancel ctx0) cmd
                 (\<lambda>m. (Metadata_Set m key uuid, None))]
            @ (case send (WithCancel ctx0) cmd (\<lambda>m. (Metadata_Set m key uuid, None)) of
                 None \<Rightarrow> [] | Some e' \<Rightarrow> [CancelFuncCall (WithCancel ctx0)]))
 \<and> Metadata_Get (Metadata_Set m key uuid) key = uuid
 \<and> (fst (ListenForReply p ctx cmdMsg command start tctx tr') = None \<longrightarrow>
      (\<exists>subscribe topic.
         SubscriberConstructor p
           \<lparr>CommandUUID = UUID cmdMsg, CommandMessage = cmdMsg, Command = command\<rparr>
           = Inr subscribe
       \<and> subscribe (env_ctx (snd (ListenForReply p ctx cmdMsg command start tctx tr'))) topic
           = None
       \<and> calls (snd (ListenForReply p ctx cmdMsg command start tctx tr')) =
           tr' @ [SubscriberConstructorCall
                    \<lparr>CommandUUID = UUID cmdMsg, CommandMessage = cmdMsg, Command = command\<rparr>,
                  GenerateReplyNotificationTopicCall
                    \<lparr>CommandUUID = UUID cmdMsg, CommandMessage = cmdMsg, Command = command\<rparr>,
                  SubscribeCall
                    (env_ctx (snd (ListenForReply p ctx cmdMsg command start tctx tr'))) topic,
                  DebugCall ''Subscribed to request/reply notifications topic'']
       \<and> goroutine (snd (ListenForReply p ctx cmdMsg command start tctx tr')) = Selecting))
 \<and> (fst (ListenForReply p ctx cmdMsg command start tctx tr') \<noteq> None \<longrightarrow>
      goroutine (snd (ListenForReply p ctx cmdMsg command start tctx tr')) = NotStarted)"
proof -
  have A: "listen (WithCancel ctx0) \<lparr>Command_listen = cmd, OperationID = uuid\<rparr> = Inl e \<longrightarrow>
      snd (SendWithReply key uuid listen send ctx0 cmd tr) =
         tr @ [NewUUIDCall,
               ListenForNotificationsCall (WithCancel ctx0)
                 \<lparr>Command_listen = cmd, OperationID = uuid\<rparr>,
               CancelFuncCall (WithCancel ctx0)]"
    by (simp add: SendWithReply_def Let_def)
  have B: "listen (WithCancel ctx0) \<lparr>Command_listen = cmd, OperationID = uuid\<rparr> = Inr ch \<longrightarrow>
      snd (SendWithReply key uuid listen send ctx0 cmd tr) =
         tr @ [NewUUIDCall,
               ListenForNotificationsCall (WithCancel ctx0)
                 \<lparr>Command_listen = cmd, OperationID = uuid\<rparr>,
               SendWithModifiedMessageCall (WithCancel ctx0) cmd
                 (\<lambda>m. (Metadata_Set m key uuid, None))]
            @ (case send (WithCancel ctx0) cmd (\<lambda>m. (Metadata_Set m key uuid, None)) of
                 None \<Rightarrow> [] | Some e' \<Rightarrow> [CancelFuncCall (WithCancel ctx0)])"
    by (simp add: SendWithReply_def Let_def split: option.splits)
  have C: "Metadata_Get (Metadata_Set m key uuid) key = uuid"
    by (simp add: Metadata_Get_def Metadata_Set_def)
  have D: "fst (ListenForReply p ctx cmdMsg command start tctx tr') = None \<longrightarrow>
      (\<exists>subscribe topic.
         SubscriberConstructor p
           \<lparr>CommandUUID = UUID cmdMsg, CommandMessage = cmdMsg, Command = command\<rparr>
           = Inr subscribe
       \<and> subscribe (env_ctx (snd (ListenForReply p ctx cmdMsg command start tctx tr'))) topic
           = None
       \<and> calls (snd (ListenForReply p ctx cmdMsg command start tctx tr')) =
           tr' @ [SubscriberConstructorCall
                    \<lparr>CommandUUID = UUID cmdMsg, CommandMessage = cmdMsg, Command = command\<rparr>,
                  GenerateReplyNotificationTopicCall
                    \<lparr>CommandUUID = UUID cmdMsg, CommandMessage = cmdMsg, Command = command\<rparr>,
                  SubscribeCall
                    (env_ctx (snd (ListenForReply p ctx cmdMsg command start tctx tr'))) topic,
                  DebugCall ''Subscribed to request/reply notifications topic'']
       \<and> goroutine (snd (ListenForReply p ctx cmdMsg command start tctx tr')) = Selecting)"
    by (auto simp add: ListenForReply_def Let_def split: sum.splits option.splits)
  have E: "fst (ListenForReply p ctx cmdMsg command start tctx tr') \<noteq> None \<longrightarrow>
      goroutine (snd (ListenForReply p ctx cmdMsg command start tctx tr')) = NotStarted"
    by (auto simp add: ListenForReply_def Let_def split: sum.splits option.splits)
  from A B C D E show ?thesis by blast
qed

theorem SendWithReply_listens_then_sends_witness:
  "snd (SendWithReply ''op_id'' ''uuid-1'' (\<lambda>c ps. Inr (7::nat)) (\<lambda>c x f. None)
          (Ctx 0) ''cmd'' [])
   = [NewUUIDCall,
      ListenForNotificationsCall (WithCancel (Ctx 0))
        \<lparr>Command_listen = ''cmd'', OperationID = ''uuid-1''\<rparr>,
      SendWithModifiedMessageCall (WithCancel (Ctx 0)) ''cmd''
        (\<lambda>m. (Metadata_Set m ''op_id'' ''uuid-1'', None))]
 \<and> snd (SendWithReply ''op_id'' ''uuid-1'' (\<lambda>c ps. Inl (New ''no subscriber'') :: error + nat)
          (\<lambda>c x f. None) (Ctx 0) ''cmd'' [])
   = [NewUUIDCall,
      ListenForNotificationsCall (WithCancel (Ctx 0))
        \<lparr>Command_listen = ''cmd'', OperationID = ''uuid-1''\<rparr>,
      CancelFuncCall (WithCancel (Ctx 0))]
 \<and> fst (ListenForReply ex_config (Ctx 0) ex_cmdMsg ''cmd'' 0 1 []) = None
 \<and> goroutine (snd (ListenForReply ex_config (Ctx 0) ex_cmdMsg ''cmd'' 0 1 [])) = Selecting
 \<and> fst (ListenForReply (ex_config\<lparr>SubscriberConstructor :=
             (\<lambda>ps. Inr (\<lambda>c topic. Some (New ''refused'')))\<rparr>)
           (Ctx 0) ex_cmdMsg ''cmd'' 0 1 []) \<noteq> None
 \<and> goroutine (snd (ListenForReply (ex_config\<lparr>SubscriberConstructor :=
             (\<lambda>ps. Inr (\<lambda>c topic. Some (New ''refused'')))\<rparr>)
           (Ctx 0) ex_cmdMsg ''cmd'' 0 1 [])) = NotStarted"
proof -
  have h1: "fst (ListenForReply ex_config (Ctx 0) ex_cmdMsg ''cmd'' 0 1 []) = None"
    by (rule ex_started)
  have h2: "fst (ListenForReply (ex_config\<lparr>SubscriberConstructor :=
             (\<lambda>ps. Inr (\<lambda>c topic. Some (New ''refused'')))\<rparr>)
           (Ctx 0) ex_cmdMsg ''cmd'' 0 1 []) \<noteq> None"
    by (simp add: ListenForReply_def ex_config_def Let_def)
  note a = SendWithReply_listens_then_sends[of "\<lambda>c ps. Inr (7::nat)" "Ctx 0" "''cmd''"
      "''uuid-1''" "New ''none''" "''op_id''" "\<lambda>c x f. None" "[]" 7 ex_cmdMsg
      ex_config "Ctx 0" ex_cmdMsg "''cmd''" 0 1 "[]"]
  note b = SendWithReply_listens_then_sends[of
      "\<lambda>c ps. Inl (New ''no subscriber'') :: error + nat" "Ctx 0" "''cmd''"
      "''uuid-1''" "New ''no subscriber''" "''op_id''" "\<lambda>c x f. None" "[]" 7 ex_cmdMsg
      "ex_config\<lparr>SubscriberConstructor := (\<lambda>ps. Inr (\<lambda>c topic. Some (New ''refused'')))\<rparr>"
      "Ctx 0" ex_cmdMsg "''cmd''" 0 1 "[]"]
  from conjunct1[OF conjunct2[OF a]] have a1: "snd (SendWithReply ''op_id'' ''uuid-1'' (\<lambda>c ps. Inr (7::nat))
          (\<lambda>c x f. None) (Ctx 0) ''cmd'' [])
   = [NewUUIDCall,
      ListenForNotificationsCall (WithCancel (Ctx 0))
        \<lparr>Command_listen = ''cmd'', OperationID = ''uuid-1''\<rparr>,
      SendWithModifiedMessageCall (WithCancel (Ctx 0)) ''cmd''
        (\<lambda>m. (Metadata_Set m ''op_id'' ''uuid-1'', None))]"
    by simp
  from a h1 have a2:
    "goroutine (snd (ListenForReply ex_config (Ctx 0) ex_cmdMsg ''cmd'' 0 1 [])) = Selecting"
    by blast
  from conjunct1[OF b] have b1: "snd (SendWithReply ''op_id'' ''uuid-1''
          (\<lambda>c ps. Inl (New ''no subscriber'') :: error + nat)
          (\<lambda>c x f. None) (Ctx 0) ''cmd'' [])
   = [NewUUIDCall,
      ListenForNotificationsCall (WithCancel (Ctx 0))
        \<lparr>Command_listen = ''cmd'', OperationID = ''uuid-1''\<rparr>,
      CancelFuncCall (WithCancel (Ctx 0))]"
    by simp
  from b h2 have b2: "goroutine (snd (ListenForReply (ex_config\<lparr>SubscriberConstructor :=
             (\<lambda>ps. Inr (\<lambda>c topic. Some (New ''refused'')))\<rparr>)
           (Ctx 0) ex_cmdMsg ''cmd'' 0 1 [])) = NotStarted"
    by blast
  from a1 a2 b1 b2 h1 h2 show ?thesis by blast
qed

subsection \<open>How many replies the listener writes\<close>

text \<open>
  Claim C1 says that the listener writes at most one reply, returns on its first matching
  notification and closes the channel after that single reply. The code ends the branch of
  a matching notification with \<open>continue\<close>: after the first matching notification the
  goroutine is in its \<open>select\<close> again with the channel open, and a second matching
  notification, once the caller has read the first reply, puts a second reply on the
  channel.
\<close>

theorem listener_second_reply_counterexample:
  "goroutine (run ex_config ex_listener [NotifyMsg (ex_notifyMsg ''cmd-1'' ''S'')]) = Selecting
 \<and> \<not> chanClosed (run ex_config ex_listener [NotifyMsg (ex_notifyMsg ''cmd-1'' ''S'')])
 \<and> written (run ex_config ex_listener
               [NotifyMsg (ex_notifyMsg ''cmd-1'' ''S''), CallerReceive,
                NotifyMsg (ex_notifyMsg ''cmd-1'' ''S'')])
     = [\<lparr>ReplyMsg = Some (ex_notifyMsg ''cmd-1'' ''S''), Err = None\<rparr>,
        \<lparr>ReplyMsg = Some (ex_notifyMsg ''cmd-1'' ''S''), Err = None\<rparr>]"
  by (simp add: ex_listener_eq ex_uuid ex_handle_success chan_send_def resume_def
      replyChanCap_def written_def)

text \<open>
  Claim C1, amended. The listener produces one reply for each matching notification
  that unmarshals which it takes in its \<open>select\<close>: it acknowledges the message and
  builds the reply (with a \<open>CommandHandlerError\<close> when the notification has the error
  flag); with the channel empty the reply is written at once, with an unread reply in
  the channel the goroutine blocks in the send holding it; either way the branch ends in
  \<open>continue\<close>, not in \<open>return\<close>. A read by the caller never loses a reply: it moves the
  oldest one to the caller and lets a held reply into the channel, after which the
  goroutine is in its \<open>select\<close> again; in every run of a started listener a reply held
  by a blocked goroutine reaches the caller with the next two reads. The channel is
  closed exactly when the goroutine has returned, and in a run without context expiry
  and without closure of the subscription the goroutine never returns and the channel
  stays open.
\<close>

theorem listener_replies_and_keeps_listening:
  "(goroutine l = Selecting
      \<and> Metadata_Get msg handledCommandUuidMetadataKey = UUID (env_cmdMsg l)
      \<and> Unmarshal p msg = Inr n \<longrightarrow>
      step p (NotifyMsg msg) l =
        (if replyChan l = []
         then l\<lparr>calls := calls l @ [UnmarshalCall msg, AckCall msg],
                replyChan := [reply_of msg n]\<rparr>
         else l\<lparr>calls := calls l @ [UnmarshalCall msg, AckCall msg],
                goroutine := Sending (reply_of msg n) ThenContinue\<rparr>)
    \<and> produced (step p (NotifyMsg msg) l) = produced l @ [reply_of msg n])
 \<and> reply_of msg n =
      \<lparr>ReplyMsg = Some msg,
       Err = (if HasError n then Some (CommandHandlerError (New (Error n))) else None)\<rparr>
 \<and> (goroutine l = Sending r ThenContinue \<and> replyChan l = x # xs \<longrightarrow>
      step p CallerReceive l =
        l\<lparr>goroutine := Selecting, replyChan := xs @ [r], received := received l @ [x]\<rparr>)
 \<and> produced (step p CallerReceive l) = produced l
 \<and> (fst (ListenForReply p ctx cmdMsg command start tctx tr) = None \<longrightarrow>
      (chanClosed (run p (snd (ListenForReply p ctx cmdMsg command start tctx tr)) es)
         \<longleftrightarrow> goroutine (run p (snd (ListenForReply p ctx cmdMsg command start tctx tr)) es)
               = Returned)
    \<and> ((\<forall>e\<in>set es. \<not> terminating e) \<longrightarrow>
          goroutine (run p (snd (ListenForReply p ctx cmdMsg command start tctx tr)) es)
            \<noteq> Returned
        \<and> \<not> chanClosed (run p (snd (ListenForReply p ctx cmdMsg command start tctx tr)) es))
    \<and> (goroutine (run p (snd (ListenForReply p ctx cmdMsg command start tctx tr)) es)
          = Sending r ThenContinue \<longrightarrow>
        received (run p (snd (ListenForReply p ctx cmdMsg command start tctx tr))
                    (es @ [CallerReceive, CallerReceive]))
          = received (run p (snd (ListenForReply p ctx cmdMsg command start tctx tr)) es)
            @ replyChan (run p (snd (ListenForReply p ctx cmdMsg command start tctx tr)) es)
            @ [r]
      \<and> goroutine (run p (snd (ListenForReply p ctx cmdMsg command start tctx tr))
                     (es @ [CallerReceive, CallerReceive])) = Selecting))"
proof -
  define l0 where "l0 = snd (ListenForReply p ctx cmdMsg command start tctx tr)"
  have A: "goroutine l = Selecting
      \<and> Metadata_Get msg handledCommandUuidMetadataKey = UUID (env_cmdMsg l)
      \<and> Unmarshal p msg = Inr n \<longrightarrow>
      step p (NotifyMsg msg) l =
        (if replyChan l = []
         then l\<lparr>calls := calls l @ [UnmarshalCall msg, AckCall msg],
                replyChan := [reply_of msg n]\<rparr>
         else l\<lparr>calls := calls l @ [UnmarshalCall msg, AckCall msg],
                goroutine := Sending (reply_of msg n) ThenContinue\<rparr>)
    \<and> produced (step p (NotifyMsg msg) l) = produced l @ [reply_of msg n]"
  proof (intro impI, elim conjE)
    assume h: "goroutine l = Selecting"
      "Metadata_Get msg handledCommandUuidMetadataKey = UUID (env_cmdMsg l)"
      "Unmarshal p msg = Inr n"
    have "step p (NotifyMsg msg) l =
        (if replyChan l = []
         then l\<lparr>calls := calls l @ [UnmarshalCall msg, AckCall msg],
                replyChan := [reply_of msg n]\<rparr>
         else l\<lparr>calls := calls l @ [UnmarshalCall msg, AckCall msg],
                goroutine := Sending (reply_of msg n) ThenContinue\<rparr>)"
      using h(1)
      by (simp only: step_match[OF h])
         (simp add: chan_send_empty chan_send_full resume_def)
    with produced_match[OF h]
    show "step p (NotifyMsg msg) l =
        (if replyChan l = []
         then l\<lparr>calls := calls l @ [UnmarshalCall msg, AckCall msg],
                replyChan := [reply_of msg n]\<rparr>
         else l\<lparr>calls := calls l @ [UnmarshalCall msg, AckCall msg],
                goroutine := Sending (reply_of msg n) ThenContinue\<rparr>)
      \<and> produced (step p (NotifyMsg msg) l) = produced l @ [reply_of msg n]"
      by blast
  qed
  have R: "reply_of msg n =
      \<lparr>ReplyMsg = Some msg,
       Err = (if HasError n then Some (CommandHandlerError (New (Error n))) else None)\<rparr>"
    by (simp add: reply_of_def)
  have D: "goroutine l = Sending r ThenContinue \<and> replyChan l = x # xs \<longrightarrow>
      step p CallerReceive l =
        l\<lparr>goroutine := Selecting, replyChan := xs @ [r], received := received l @ [x]\<rparr>"
    by (simp add: Let_def resume_def)
  have E: "produced (step p CallerReceive l) = produced l"
    by (rule produced_read)
  have B: "fst (ListenForReply p ctx cmdMsg command start tctx tr) = None \<longrightarrow>
      (chanClosed (run p l0 es) \<longleftrightarrow> goroutine (run p l0 es) = Returned)"
    using started_inv[of p ctx cmdMsg command start tctx tr] run_inv inv_closed_iff
    unfolding l0_def by blast
  have C: "fst (ListenForReply p ctx cmdMsg command start tctx tr) = None \<longrightarrow>
     (\<forall>e\<in>set es. \<not> terminating e) \<longrightarrow>
          goroutine (run p l0 es) \<noteq> Returned \<and> \<not> chanClosed (run p l0 es)"
    using started_inv[of p ctx cmdMsg command start tctx tr] listening_run
      listening_not_returned
    unfolding l0_def by blast
  have F: "fst (ListenForReply p ctx cmdMsg command start tctx tr) = None \<longrightarrow>
     goroutine (run p l0 es) = Sending r ThenContinue \<longrightarrow>
        received (run p l0 (es @ [CallerReceive, CallerReceive]))
          = received (run p l0 es) @ replyChan (run p l0 es) @ [r]
      \<and> goroutine (run p l0 (es @ [CallerReceive, CallerReceive])) = Selecting"
  proof (intro impI)
    assume s: "fst (ListenForReply p ctx cmdMsg command start tctx tr) = None"
      and b: "goroutine (run p l0 es) = Sending r ThenContinue"
    from started_inv[OF s] have "listener_inv (run p l0 es)"
      unfolding l0_def by (simp add: run_inv)
    from blocked_reply_delivered[OF this b, of p]
    show "received (run p l0 (es @ [CallerReceive, CallerReceive]))
          = received (run p l0 es) @ replyChan (run p l0 es) @ [r]
      \<and> goroutine (run p l0 (es @ [CallerReceive, CallerReceive])) = Selecting"
      by (simp only: run_append)
  qed
  from A R D E B C F show ?thesis
    unfolding l0_def by blast
qed

theorem listener_replies_and_keeps_listening_witness:
  "goroutine ex_listener = Selecting \<and> replyChan ex_listener = []
 \<and> Metadata_Get (ex_notifyMsg ''cmd-1'' (CHR ''E'' # ''insufficient funds''))
       handledCommandUuidMetadataKey = UUID (env_cmdMsg ex_listener)
 \<and> Unmarshal ex_config (ex_notifyMsg ''cmd-1'' (CHR ''E'' # ''insufficient funds''))
      = Inr \<lparr>Error = ''insufficient funds'', HasError = True\<rparr>
 \<and> fst (ListenForReply ex_config (Ctx 0) ex_cmdMsg ''cmd'' 0 1 []) = None
 \<and> \<not> terminating (NotifyMsg (ex_notifyMsg ''cmd-1'' ''S'')) \<and> \<not> terminating CallerReceive
 \<and> replyChan (step ex_config
       (NotifyMsg (ex_notifyMsg ''cmd-1'' (CHR ''E'' # ''insufficient funds''))) ex_listener)
     = [\<lparr>ReplyMsg = Some (ex_notifyMsg ''cmd-1'' (CHR ''E'' # ''insufficient funds'')),
         Err = Some (CommandHandlerError (New ''insufficient funds''))\<rparr>]
 \<and> goroutine (run ex_config (snd (ListenForReply ex_config (Ctx 0) ex_cmdMsg ''cmd'' 0 1 []))
       [NotifyMsg (ex_notifyMsg ''cmd-1'' ''S''), CallerReceive]) \<noteq> Returned
 \<and> \<not> chanClosed (run ex_config (snd (ListenForReply ex_config (Ctx 0) ex_cmdMsg ''cmd'' 0 1 []))
       [NotifyMsg (ex_notifyMsg ''cmd-1'' ''S''), CallerReceive])
 \<and> goroutine (run ex_config (snd (ListenForReply ex_config (Ctx 0) ex_cmdMsg ''cmd'' 0 1 []))
       [NotifyMsg (ex_notifyMsg ''cmd-1'' ''S''),
        NotifyMsg (ex_notifyMsg ''cmd-1'' (CHR ''E'' # ''insufficient funds''))])
     = Sending \<lparr>ReplyMsg = Some (ex_notifyMsg ''cmd-1'' (CHR ''E'' # ''insufficient funds'')),
                Err = Some (CommandHandlerError (New ''insufficient funds''))\<rparr> ThenContinue
 \<and> received (run ex_config (snd (ListenForReply ex_config (Ctx 0) ex_cmdMsg ''cmd'' 0 1 []))
       ([NotifyMsg (ex_notifyMsg ''cmd-1'' ''S''),
         NotifyMsg (ex_notifyMsg ''cmd-1'' (CHR ''E'' # ''insufficient funds''))]
        @ [CallerReceive, CallerReceive]))
     = [\<lparr>ReplyMsg = Some (ex_notifyMsg ''cmd-1'' ''S''), Err = None\<rparr>,
        \<lparr>ReplyMsg = Some (ex_notifyMsg ''cmd-1'' (CHR ''E'' # ''insufficient funds'')),
         Err = Some (CommandHandlerError (New ''insufficient funds''))\<rparr>]"
proof -
  let ?m = "ex_notifyMsg ''cmd-1'' (CHR ''E'' # ''insufficient funds'')"
  let ?n = "\<lparr>Error = ''insufficient funds'', HasError = True\<rparr>"
  let ?r = "\<lparr>ReplyMsg = Some ?m,
             Err = Some (CommandHandlerError (New ''insufficient funds''))\<rparr>"
  let ?es = "[NotifyMsg (ex_notifyMsg ''cmd-1'' ''S''), NotifyMsg ?m]"
  have h1: "goroutine ex_listener = Selecting \<and> replyChan ex_listener = []"
    by (simp add: ex_listener_eq)
  have h2: "Metadata_Get ?m handledCommandUuidMetadataKey = UUID (env_cmdMsg ex_listener)"
    by (simp add: ex_handled_id ex_listener_eq ex_uuid)
  have h3: "Unmarshal ex_config ?m = Inr ?n"
    by (rule ex_unmarshal_ok)
  have h4: "fst (ListenForReply ex_config (Ctx 0) ex_cmdMsg ''cmd'' 0 1 []) = None"
    by (rule ex_started)
  have h5: "\<forall>e\<in>set [NotifyMsg (ex_notifyMsg ''cmd-1'' ''S''), CallerReceive]. \<not> terminating e"
    by simp
  have h6: "\<not> terminating (NotifyMsg (ex_notifyMsg ''cmd-1'' ''S'')) \<and> \<not> terminating CallerReceive"
    by simp
  have hm: "handleNotifyMsg ex_config ?m ''cmd-1'' t =
      ((True, Some (New ''insufficient funds'')), t @ [UnmarshalCall ?m, AckCall ?m])" for t
    using handleNotifyMsg_decoded[OF ex_handled_id h3, of t] by simp
  have h7: "goroutine (run ex_config (snd (ListenForReply ex_config (Ctx 0) ex_cmdMsg ''cmd'' 0 1 []))
       ?es) = Sending ?r ThenContinue"
    by (simp add: ex_listener_def[symmetric])
       (simp add: ex_listener_eq ex_uuid ex_handle_success hm chan_send_def resume_def
          replyChanCap_def)
  have h8: "received (run ex_config (snd (ListenForReply ex_config (Ctx 0) ex_cmdMsg ''cmd'' 0 1 []))
       ?es) = []
     \<and> replyChan (run ex_config (snd (ListenForReply ex_config (Ctx 0) ex_cmdMsg ''cmd'' 0 1 []))
       ?es) = [\<lparr>ReplyMsg = Some (ex_notifyMsg ''cmd-1'' ''S''), Err = None\<rparr>]"
    by (simp add: ex_listener_def[symmetric])
       (simp add: ex_listener_eq ex_uuid ex_handle_success hm chan_send_def resume_def
          replyChanCap_def)
  note t = listener_replies_and_keeps_listening[of ex_listener ?m ex_config ?n
      ?r "\<lparr>ReplyMsg = None, Err = None\<rparr>" "[]" "Ctx 0" ex_cmdMsg "''cmd''" 0 1 "[]"
      "[NotifyMsg (ex_notifyMsg ''cmd-1'' ''S''), CallerReceive]"]
  note t2 = listener_replies_and_keeps_listening[of ex_listener ?m ex_config ?n
      ?r "\<lparr>ReplyMsg = None, Err = None\<rparr>" "[]" "Ctx 0" ex_cmdMsg "''cmd''" 0 1 "[]" ?es]
  from conjunct1[OF t] h1 h2 h3 conjunct1[OF conjunct2[OF t]]
  have c1: "replyChan (step ex_config (NotifyMsg ?m) ex_listener) = [?r]"
    by (simp del: step.simps)
  from t h4 h5
  have c2: "goroutine (run ex_config (snd (ListenForReply ex_config (Ctx 0) ex_cmdMsg ''cmd'' 0 1 []))
       [NotifyMsg (ex_notifyMsg ''cmd-1'' ''S''), CallerReceive]) \<noteq> Returned
   \<and> \<not> chanClosed (run ex_config (snd (ListenForReply ex_config (Ctx 0) ex_cmdMsg ''cmd'' 0 1 []))
       [NotifyMsg (ex_notifyMsg ''cmd-1'' ''S''), CallerReceive])"
    by blast
  from t2 h4 h7
  have "received (run ex_config (snd (ListenForReply ex_config (Ctx 0) ex_cmdMsg ''cmd'' 0 1 []))
       (?es @ [CallerReceive, CallerReceive]))
     = received (run ex_config (snd (ListenForReply ex_config (Ctx 0) ex_cmdMsg ''cmd'' 0 1 []))
         ?es)
       @ replyChan (run ex_config (snd (ListenForReply ex_config (Ctx 0) ex_cmdMsg ''cmd'' 0 1 []))
         ?es) @ [?r]"
    by blast
  with h8 have c3: "received (run ex_config
       (snd (ListenForReply ex_config (Ctx 0) ex_cmdMsg ''cmd'' 0 1 []))
       (?es @ [CallerReceive, CallerReceive]))
     = [\<lparr>ReplyMsg = Some (ex_notifyMsg ''cmd-1'' ''S''), Err = None\<rparr>, ?r]"
    by (simp del: run.simps)
  from h1 h2 h3 h4 h6 h7 c1 c2 c3 show ?thesis by blast
qed

subsection \<open>The capacity of the reply channel\<close>

text \<open>
  Claim C9 says that the worker never blocks when it writes a reply. The channel has
  capacity one and the listener keeps listening after a reply, so a write that finds the
  previous reply unread blocks: a second matching notification leaves the goroutine
  blocked in its send, and so does the expiry of the context after an unread reply.
\<close>

theorem reply_write_blocks_counterexample:
  "goroutine (run ex_config ex_listener
                [NotifyMsg (ex_notifyMsg ''cmd-1'' ''S''), NotifyMsg (ex_notifyMsg ''cmd-1'' ''S'')])
     = Sending \<lparr>ReplyMsg = Some (ex_notifyMsg ''cmd-1'' ''S''), Err = None\<rparr> ThenContinue
 \<and> goroutine (run ex_config ex_listener
                [NotifyMsg (ex_notifyMsg ''cmd-1'' ''S''), CtxDone 60 DeadlineExceeded])
     = Sending \<lparr>ReplyMsg = None, Err = Some (ReplyTimeoutError 60 DeadlineExceeded)\<rparr> ThenReturn"
  by (simp add: ex_listener_eq ex_uuid ex_handle_success chan_send_def resume_def
      replyChanCap_def)

text \<open>
  Claim C9, amended. The reply channel is created empty with capacity exactly one and
  never holds more than one reply. A write to the empty channel stores the reply and
  succeeds without waiting, so the first write of a listener never blocks. A write
  attempted while an unread reply is in the channel stores nothing and blocks the worker,
  which holds the reply; while it is blocked no expiry of the context and no notification
  moves it, and the caller's read releases it: the read takes the unread reply, the held
  reply enters the channel, and the worker goes on with what follows the send. Whenever
  the worker is blocked in a write the channel holds an unread reply.
\<close>

theorem reply_channel_capacity:
  "replyChanCap = 1
 \<and> (fst (ListenForReply p ctx cmdMsg command start tctx tr) = None \<longrightarrow>
      replyChan (snd (ListenForReply p ctx cmdMsg command start tctx tr)) = []
    \<and> length (replyChan (run p (snd (ListenForReply p ctx cmdMsg command start tctx tr)) es))
        \<le> 1
    \<and> (\<forall>r k. goroutine (run p (snd (ListenForReply p ctx cmdMsg command start tctx tr)) es)
                 = Sending r k \<longrightarrow>
               length (replyChan (run p (snd (ListenForReply p ctx cmdMsg command start tctx tr))
                                     es)) = 1))
 \<and> (replyChan l = [] \<longrightarrow>
      chan_send r k l = resume k (l\<lparr>replyChan := [r]\<rparr>)
    \<and> (\<forall>r' k'. goroutine (chan_send r k l) \<noteq> Sending r' k'))
 \<and> (replyChan l \<noteq> [] \<longrightarrow> chan_send r k l = l\<lparr>goroutine := Sending r k\<rparr>)
 \<and> (goroutine l = Sending r k \<and> e \<noteq> CallerReceive \<longrightarrow> step p e l = l)
 \<and> (goroutine l = Sending r k \<and> replyChan l = x # xs \<longrightarrow>
      step p CallerReceive l =
        resume k (l\<lparr>received := received l @ [x], replyChan := xs @ [r]\<rparr>)
    \<and> (\<forall>r' k'. goroutine (step p CallerReceive l) \<noteq> Sending r' k'))"
proof -
  have A: "fst (ListenForReply p ctx cmdMsg command start tctx tr) = None \<longrightarrow>
      replyChan (snd (ListenForReply p ctx cmdMsg command start tctx tr)) = []"
    using ListenForReply_started[of p ctx cmdMsg command start tctx tr] by simp
  have inv: "fst (ListenForReply p ctx cmdMsg command start tctx tr) = None \<Longrightarrow>
     listener_inv (run p (snd (ListenForReply p ctx cmdMsg command start tctx tr)) es)"
    using started_inv[of p ctx cmdMsg command start tctx tr] run_inv by blast
  have B: "fst (ListenForReply p ctx cmdMsg command start tctx tr) = None \<longrightarrow>
     length (replyChan (run p (snd (ListenForReply p ctx cmdMsg command start tctx tr)) es))
        \<le> 1"
    using inv by (simp add: listener_inv_def replyChanCap_def)
  have C: "fst (ListenForReply p ctx cmdMsg command start tctx tr) = None \<longrightarrow>
     (\<forall>r k. goroutine (run p (snd (ListenForReply p ctx cmdMsg command start tctx tr)) es)
                 = Sending r k \<longrightarrow>
               length (replyChan (run p (snd (ListenForReply p ctx cmdMsg command start tctx tr))
                                     es)) = 1)"
    using inv by (auto simp add: listener_inv_def replyChanCap_def)
  have D: "replyChan l = [] \<longrightarrow>
      chan_send r k l = resume k (l\<lparr>replyChan := [r]\<rparr>)
    \<and> (\<forall>r' k'. goroutine (chan_send r k l) \<noteq> Sending r' k')"
    by (simp add: chan_send_empty resume_not_sending)
  have E: "replyChan l \<noteq> [] \<longrightarrow> chan_send r k l = l\<lparr>goroutine := Sending r k\<rparr>"
    by (simp add: chan_send_full)
  have F: "goroutine l = Sending r k \<and> e \<noteq> CallerReceive \<longrightarrow> step p e l = l"
    using step_blocked_other[of l r k e p] by blast
  have G: "goroutine l = Sending r k \<and> replyChan l = x # xs \<longrightarrow>
      step p CallerReceive l =
        resume k (l\<lparr>received := received l @ [x], replyChan := xs @ [r]\<rparr>)
    \<and> (\<forall>r' k'. goroutine (step p CallerReceive l) \<noteq> Sending r' k')"
  proof (intro impI, elim conjE)
    assume h: "goroutine l = Sending r k" "replyChan l = x # xs"
    from step_blocked_read[OF h, of p]
    have s: "step p CallerReceive l =
        resume k (l\<lparr>received := received l @ [x], replyChan := xs @ [r]\<rparr>)"
      by (simp del: step.simps)
    then show "step p CallerReceive l =
        resume k (l\<lparr>received := received l @ [x], replyChan := xs @ [r]\<rparr>)
      \<and> (\<forall>r' k'. goroutine (step p CallerReceive l) \<noteq> Sending r' k')"
      by (simp only: resume_not_sending) simp
  qed
  have cap: "replyChanCap = 1" by (simp add: replyChanCap_def)
  from cap A B C D E F G show ?thesis by blast
qed

theorem reply_channel_capacity_witness:
  "fst (ListenForReply ex_config (Ctx 0) ex_cmdMsg ''cmd'' 0 1 []) = None
 \<and> goroutine (run ex_config (snd (ListenForReply ex_config (Ctx 0) ex_cmdMsg ''cmd'' 0 1 []))
       [NotifyMsg (ex_notifyMsg ''cmd-1'' ''S''), NotifyMsg (ex_notifyMsg ''cmd-1'' ''S'')])
     = Sending \<lparr>ReplyMsg = Some (ex_notifyMsg ''cmd-1'' ''S''), Err = None\<rparr> ThenContinue
 \<and> replyChan ex_listener = []
 \<and> length (replyChan (run ex_config
       (snd (ListenForReply ex_config (Ctx 0) ex_cmdMsg ''cmd'' 0 1 []))
       [NotifyMsg (ex_notifyMsg ''cmd-1'' ''S''), NotifyMsg (ex_notifyMsg ''cmd-1'' ''S'')])) = 1
 \<and> chan_send \<lparr>ReplyMsg = None, Err = None\<rparr> ThenContinue ex_listener
     = resume ThenContinue (ex_listener\<lparr>replyChan := [\<lparr>ReplyMsg = None, Err = None\<rparr>]\<rparr>)
 \<and> replyChan (ex_listener\<lparr>replyChan := [\<lparr>ReplyMsg = None, Err = None\<rparr>]\<rparr>) \<noteq> []
 \<and> chan_send \<lparr>ReplyMsg = None, Err = Some (ReplyTimeoutError 60 DeadlineExceeded)\<rparr> ThenReturn
       (ex_listener\<lparr>replyChan := [\<lparr>ReplyMsg = None, Err = None\<rparr>]\<rparr>)
     = ex_listener\<lparr>replyChan := [\<lparr>ReplyMsg = None, Err = None\<rparr>],
         goroutine := Sending
           \<lparr>ReplyMsg = None, Err = Some (ReplyTimeoutError 60 DeadlineExceeded)\<rparr> ThenReturn\<rparr>
 \<and> step ex_config (CtxDone 70 Canceled)
       (ex_listener\<lparr>replyChan := [\<lparr>ReplyMsg = None, Err = None\<rparr>],
          goroutine := Sending
            \<lparr>ReplyMsg = None, Err = Some (ReplyTimeoutError 60 DeadlineExceeded)\<rparr> ThenReturn\<rparr>)
     = ex_listener\<lparr>replyChan := [\<lparr>ReplyMsg = None, Err = None\<rparr>],
         goroutine := Sending
           \<lparr>ReplyMsg = None, Err = Some (ReplyTimeoutError 60 DeadlineExceeded)\<rparr> ThenReturn\<rparr>
 \<and> step ex_config CallerReceive
       (ex_listener\<lparr>replyChan := [\<lparr>ReplyMsg = None, Err = None\<rparr>],
          goroutine := Sending
            \<lparr>ReplyMsg = None, Err = Some (ReplyTimeoutError 60 DeadlineExceeded)\<rparr> ThenReturn\<rparr>)
     = resume ThenReturn
         (ex_listener\<lparr>goroutine := Sending
              \<lparr>ReplyMsg = None, Err = Some (ReplyTimeoutError 60 DeadlineExceeded)\<rparr> ThenReturn,
            received := [\<lparr>ReplyMsg = None, Err = None\<rparr>],
            replyChan := [\<lparr>ReplyMsg = None, Err = Some (ReplyTimeoutError 60 DeadlineExceeded)\<rparr>]\<rparr>)"
proof -
  let ?r0 = "\<lparr>ReplyMsg = None, Err = None\<rparr>"
  let ?rt = "\<lparr>ReplyMsg = None, Err = Some (ReplyTimeoutError 60 DeadlineExceeded)\<rparr>"
  let ?full = "ex_listener\<lparr>replyChan := [?r0]\<rparr>"
  let ?blocked = "ex_listener\<lparr>replyChan := [?r0], goroutine := Sending ?rt ThenReturn\<rparr>"
  have h1: "fst (ListenForReply ex_config (Ctx 0) ex_cmdMsg ''cmd'' 0 1 []) = None"
    by (rule ex_started)
  have h2: "goroutine (run ex_config (snd (ListenForReply ex_config (Ctx 0) ex_cmdMsg ''cmd'' 0 1 []))
       [NotifyMsg (ex_notifyMsg ''cmd-1'' ''S''), NotifyMsg (ex_notifyMsg ''cmd-1'' ''S'')])
     = Sending \<lparr>ReplyMsg = Some (ex_notifyMsg ''cmd-1'' ''S''), Err = None\<rparr> ThenContinue"
    by (simp add: ex_listener_def[symmetric])
       (simp add: ex_listener_eq ex_uuid ex_handle_success chan_send_def resume_def
          replyChanCap_def)
  have h3: "replyChan ex_listener = []"
    by (simp add: ex_listener_eq)
  have h4: "replyChan ?full \<noteq> []"
    by simp
  have h5: "goroutine ?blocked = Sending ?rt ThenReturn \<and> CtxDone 70 Canceled \<noteq> CallerReceive"
    by simp
  have h6: "goroutine ?blocked = Sending ?rt ThenReturn \<and> replyChan ?blocked = ?r0 # []"
    by simp
  have h7: "received ex_listener = []"
    by (simp add: ex_listener_eq)
  note t1 = reply_channel_capacity[where p = ex_config and ctx = "Ctx 0" and cmdMsg = ex_cmdMsg
      and command = "''cmd''" and start = 0 and tctx = 1 and tr = "[]"
      and es = "[NotifyMsg (ex_notifyMsg ''cmd-1'' ''S''), NotifyMsg (ex_notifyMsg ''cmd-1'' ''S'')]"
      and l = ex_listener and r = ?r0 and k = ThenContinue and e = CallerReceive
      and x = ?r0 and xs = "[]"]
  note t2 = reply_channel_capacity[where p = ex_config and ctx = "Ctx 0" and cmdMsg = ex_cmdMsg
      and command = "''cmd''" and start = 0 and tctx = 1 and tr = "[]" and es = "[]"
      and l = ?full and r = ?rt and k = ThenReturn and e = CallerReceive
      and x = ?r0 and xs = "[]"]
  note t3 = reply_channel_capacity[where p = ex_config and ctx = "Ctx 0" and cmdMsg = ex_cmdMsg
      and command = "''cmd''" and start = 0 and tctx = 1 and tr = "[]" and es = "[]"
      and l = ?blocked and r = ?rt and k = ThenReturn and e = "CtxDone 70 Canceled"
      and x = ?r0 and xs = "[]"]
  from t1 h1 h2 have c1: "length (replyChan (run ex_config
       (snd (ListenForReply ex_config (Ctx 0) ex_cmdMsg ''cmd'' 0 1 []))
       [NotifyMsg (ex_notifyMsg ''cmd-1'' ''S''), NotifyMsg (ex_notifyMsg ''cmd-1'' ''S'')])) = 1"
    by blast
  from t1 h3 have c2: "chan_send ?r0 ThenContinue ex_listener
     = resume ThenContinue (ex_listener\<lparr>replyChan := [?r0]\<rparr>)"
    by blast
  from t2 h4 have c3: "chan_send ?rt ThenReturn ?full = ?full\<lparr>goroutine := Sending ?rt ThenReturn\<rparr>"
    by blast
  from t3 h5 have c4: "step ex_config (CtxDone 70 Canceled) ?blocked = ?blocked"
    by blast
  from t3 h6 have c5: "step ex_config CallerReceive ?blocked =
      resume ThenReturn (?blocked\<lparr>received := received ?blocked @ [?r0], replyChan := [] @ [?rt]\<rparr>)"
    by blast
  from c3 have c3': "chan_send ?rt ThenReturn ?full = ?blocked"
    by simp
  from c5 h7 have c5': "step ex_config CallerReceive ?blocked =
      resume ThenReturn
         (ex_listener\<lparr>goroutine := Sending ?rt ThenReturn, received := [?r0],
            replyChan := [?rt]\<rparr>)"
    by (simp del: step.simps)
  from h1 h2 h3 h4 c1 c2 c3' c4 c5' show ?thesis by blast
qed

subsection \<open>Timeout and closed subscription\<close>

text \<open>
  Claim C4. Take a started listener and a run in which no notification has produced a
  reply yet. When the \<open>select\<close> then takes \<open>ctx.Done()\<close>, or finds the subscription
  channel closed, the listener writes exactly one reply, a \<open>ReplyTimeoutError\<close> carrying
  the time elapsed since the start of \<open>ListenForReply\<close> and the cause (\<open>ctx.Err()\<close>, or
  the error \<open>subscriber closed\<close>), cancels its context, closes the channel and returns;
  nothing that happens afterwards adds a reply. With a configured timeout \<open>d\<close> the
  listening context has its deadline \<open>d\<close> after a clock reading that is not before the
  start, so once that deadline has passed the elapsed time in the reply is at least \<open>d\<close>.
\<close>

theorem timeout_reply_before_any_match:
  assumes started: "fst (ListenForReply p ctx cmdMsg command start tctx tr) = None"
    and quiet: "\<forall>x\<in>set es. no_reply_event p (UUID cmdMsg) x"
    and last: "e = CtxDone now cause \<or> (e = NotifyClosed now \<and> cause = New ''subscriber closed'')"
  shows "let l0 = snd (ListenForReply p ctx cmdMsg command start tctx tr);
             reply = \<lparr>ReplyMsg = None, Err = Some (ReplyTimeoutError (now - start) cause)\<rparr>
         in written (run p l0 (es @ [e])) = [reply]
          \<and> chanClosed (run p l0 (es @ [e]))
          \<and> goroutine (run p l0 (es @ [e])) = Returned
          \<and> calls (run p l0 (es @ [e])) = calls (run p l0 es) @ [CancelCall (env_ctx l0)]
          \<and> (\<forall>es'. written (run p l0 (es @ [e] @ es')) = [reply]
                   \<and> goroutine (run p l0 (es @ [e] @ es')) = Returned)
          \<and> (\<forall>d. ListenForReplyTimeout p = Some d \<longrightarrow>
                   env_ctx l0 = WithDeadline ctx (tctx + d)
                 \<and> (start \<le> tctx \<and> tctx + d \<le> now \<longrightarrow> d \<le> now - start))"
proof -
  define l0 where "l0 = snd (ListenForReply p ctx cmdMsg command start tctx tr)"
  define reply where
    "reply = \<lparr>ReplyMsg = None, Err = Some (ReplyTimeoutError (now - start) cause)\<rparr>"
  define l1 where "l1 = run p l0 es"
  note init = ListenForReply_started[OF started, folded l0_def]
  from quiet init have "\<forall>x\<in>set es. no_reply_event p (UUID (env_cmdMsg l0)) x"
    by simp
  from run_quiet[OF this] init
  have l1: "goroutine l1 = Selecting" "replyChan l1 = []" "received l1 = []"
    "\<not> chanClosed l1" "env_ctx l1 = env_ctx l0" "env_start l1 = start"
    by (simp_all add: l1_def)
  from last l1 have fin: "step p e l1 = returns (l1\<lparr>replyChan := [reply]\<rparr>)"
    by (auto simp add: chan_send_def resume_def replyChanCap_def reply_def)
  have run1: "run p l0 (es @ [e]) = returns (l1\<lparr>replyChan := [reply]\<rparr>)"
    by (simp add: run_append l1_def[symmetric] fin)
  have w: "written (run p l0 (es @ [e])) = [reply]"
    by (simp add: run1 returns_def written_def l1)
  have c: "chanClosed (run p l0 (es @ [e]))" "goroutine (run p l0 (es @ [e])) = Returned"
    by (simp_all add: run1 returns_def)
  have k: "calls (run p l0 (es @ [e])) = calls (run p l0 es) @ [CancelCall (env_ctx l0)]"
    by (simp add: run1 returns_def l1 l1_def[symmetric])
  have later: "\<forall>es'. written (run p l0 (es @ [e] @ es')) = [reply]
                   \<and> goroutine (run p l0 (es @ [e] @ es')) = Returned"
  proof
    fix es'
    have "run p l0 (es @ [e] @ es') = run p (run p l0 (es @ [e])) es'"
      using run_append[of p l0 "es @ [e]" es'] by simp
    with run_Returned[OF c(2), of p es'] w
    show "written (run p l0 (es @ [e] @ es')) = [reply]
        \<and> goroutine (run p l0 (es @ [e] @ es')) = Returned"
      by simp
  qed
  have bound: "\<forall>d. ListenForReplyTimeout p = Some d \<longrightarrow>
                   env_ctx l0 = WithDeadline ctx (tctx + d)
                 \<and> (start \<le> tctx \<and> tctx + d \<le> now \<longrightarrow> d \<le> now - start)"
    using init by auto
  from w c k later bound show ?thesis
    unfolding Let_def l0_def[symmetric] reply_def[symmetric] by blast
qed

theorem timeout_reply_before_any_match_witness:
  "fst (ListenForReply ex_config (Ctx 0) ex_cmdMsg ''cmd'' 0 1 []) = None
 \<and> no_reply_event ex_config (UUID ex_cmdMsg) (NotifyMsg (ex_notifyMsg ''cmd-2'' ''S''))
 \<and> no_reply_event ex_config (UUID ex_cmdMsg) CallerReceive
 \<and> written (run ex_config ex_listener
       ([NotifyMsg (ex_notifyMsg ''cmd-2'' ''S''), CallerReceive] @ [CtxDone 60 DeadlineExceeded]))
     = [\<lparr>ReplyMsg = None, Err = Some (ReplyTimeoutError 60 DeadlineExceeded)\<rparr>]
 \<and> chanClosed (run ex_config ex_listener
       ([NotifyMsg (ex_notifyMsg ''cmd-2'' ''S''), CallerReceive] @ [CtxDone 60 DeadlineExceeded]))
 \<and> written (run ex_config ex_listener
       ([NotifyMsg (ex_notifyMsg ''cmd-2'' ''S''), CallerReceive] @ [NotifyClosed 20]))
     = [\<lparr>ReplyMsg = None, Err = Some (ReplyTimeoutError 20 (New ''subscriber closed''))\<rparr>]
 \<and> env_ctx ex_listener = WithDeadline (Ctx 0) (1 + 50)
 \<and> (50::int) \<le> 60 - 0"
proof -
  have h1: "fst (ListenForReply ex_config (Ctx 0) ex_cmdMsg ''cmd'' 0 1 []) = None"
    by (rule ex_started)
  have h2: "\<forall>x\<in>set [NotifyMsg (ex_notifyMsg ''cmd-2'' ''S''), CallerReceive].
       no_reply_event ex_config (UUID ex_cmdMsg) x"
    by (simp add: ex_uuid ex_handle_other)
  have h3: "CtxDone 60 DeadlineExceeded = CtxDone 60 DeadlineExceeded
      \<or> (CtxDone 60 DeadlineExceeded = NotifyClosed 60
          \<and> DeadlineExceeded = New ''subscriber closed'')"
    by simp
  have h4: "NotifyClosed 20 = CtxDone 20 (New ''subscriber closed'')
      \<or> (NotifyClosed 20 = NotifyClosed 20
          \<and> New ''subscriber closed'' = New ''subscriber closed'')"
    by simp
  have h5: "ListenForReplyTimeout ex_config = Some 50"
    by (simp add: ex_config_def)
  note a = timeout_reply_before_any_match[OF h1 h2 h3, unfolded Let_def,
      folded ex_listener_def]
  note b = timeout_reply_before_any_match[OF h1 h2 h4, unfolded Let_def,
      folded ex_listener_def]
  from a h5 have a6: "env_ctx ex_listener = WithDeadline (Ctx 0) (1 + 50)"
    by blast
  from h2 have h7: "no_reply_event ex_config (UUID ex_cmdMsg)
                      (NotifyMsg (ex_notifyMsg ''cmd-2'' ''S''))
      \<and> no_reply_event ex_config (UUID ex_cmdMsg) CallerReceive"
    by simp
  from a b a6 h1 h7 show ?thesis
    by simp
qed

subsection \<open>Handler errors through notification and reply\<close>



end
